theory Spec2Isabelle
  imports Complex_Main
begin

section \<open>Profile configuration (js/audio/soundProfiles.js)\<close>

text \<open>
  A profile's \<open>config\<close> object. The fields kept are the ones that decide which audio nodes
  and scheduled loops an engine builds and when the loops fire; volumes, note names and
  trigger probabilities only tune the sound and are left out. An absent property
  (\<open>undefined\<close>) is \<open>None\<close>.
\<close>

record reverb_options =
  decay :: rat
  preDelay :: rat
  wet :: rat

record delay_options =
  delayTime :: string
  feedback :: rat
  delayWet :: rat

text \<open>A loop interval: a number of seconds, or a tempo-relative notation such as \<open>'8n'\<close>.\<close>

datatype interval = Seconds nat | Notation string

record config =
  ctype :: string
  reverb :: "reverb_options option"
  delay :: "delay_options option"
  highPassFreq :: "int option"
  lowPassFreq :: "int option"
  bitCrush :: "int option"
  primeIntervals :: "nat list option"
  gammaEnabled :: "bool option"
  textureEnabled :: "bool option"
  thunderEnabled :: "bool option"
  insectsEnabled :: "bool option"
  streamEnabled :: "bool option"
  padInterval :: "interval option"
  modularInterval :: "interval option"
  dropletFrequency :: "interval option"
  interval :: "interval option"

record profile =
  pid :: string
  pname :: string
  pconfig :: config

definition no_config :: config where
  "no_config = \<lparr> ctype = '''', reverb = None, delay = None, highPassFreq = None,
     lowPassFreq = None, bitCrush = None, primeIntervals = None, gammaEnabled = None,
     textureEnabled = None, thunderEnabled = None, insectsEnabled = None,
     streamEnabled = None, padInterval = None, modularInterval = None,
     dropletFrequency = None, interval = None \<rparr>"

definition SCIENCE_FOCUS :: profile where
  "SCIENCE_FOCUS = \<lparr> pid = ''science_focus'', pname = ''Science Focus'',
     pconfig = no_config \<lparr> ctype := ''scientific'',
       primeIntervals := Some [17, 19, 23, 29, 31],
       gammaEnabled := Some True, textureEnabled := Some True,
       reverb := Some \<lparr> decay = 10, preDelay = 15 / 100, wet = 35 / 100 \<rparr>,
       delay := Some \<lparr> delayTime = ''4n.'', feedback = 2 / 10, delayWet = 2 / 10 \<rparr> \<rparr> \<rparr>"

definition DEEP_FOCUS :: profile where
  "DEEP_FOCUS = \<lparr> pid = ''deep_focus'', pname = ''Deep Focus'',
     pconfig = no_config \<lparr> ctype := ''generative'',
       padInterval := Some (Notation ''7n''), modularInterval := Some (Notation ''8n''),
       reverb := Some \<lparr> decay = 8, preDelay = 1 / 10, wet = 3 / 10 \<rparr>,
       delay := Some \<lparr> delayTime = ''8n.'', feedback = 15 / 100, delayWet = 25 / 100 \<rparr> \<rparr> \<rparr>"

definition BINAURAL_ALPHA :: profile where
  "BINAURAL_ALPHA = \<lparr> pid = ''binaural_alpha'', pname = ''Alpha Waves'',
     pconfig = no_config \<lparr> ctype := ''binaural'',
       reverb := Some \<lparr> decay = 5, preDelay = 8 / 100, wet = 2 / 10 \<rparr> \<rparr> \<rparr>"

definition BINAURAL_BETA :: profile where
  "BINAURAL_BETA = \<lparr> pid = ''binaural_beta'', pname = ''Beta Waves'',
     pconfig = no_config \<lparr> ctype := ''binaural'',
       reverb := Some \<lparr> decay = 4, preDelay = 8 / 100, wet = 18 / 100 \<rparr> \<rparr> \<rparr>"

definition BROWN_NOISE :: profile where
  "BROWN_NOISE = \<lparr> pid = ''brown_noise'', pname = ''Brown Noise'',
     pconfig = no_config \<lparr> ctype := ''noise'',
       lowPassFreq := Some 1000, highPassFreq := Some 50,
       reverb := Some \<lparr> decay = 2, preDelay = 0, wet = 5 / 100 \<rparr> \<rparr> \<rparr>"

definition WHITE_NOISE :: profile where
  "WHITE_NOISE = \<lparr> pid = ''white_noise'', pname = ''White Noise'',
     pconfig = no_config \<lparr> ctype := ''noise'',
       lowPassFreq := Some 3000, highPassFreq := Some 100,
       reverb := Some \<lparr> decay = 15 / 10, preDelay = 0, wet = 3 / 100 \<rparr> \<rparr> \<rparr>"

definition RAIN :: profile where
  "RAIN = \<lparr> pid = ''rain'', pname = ''Rain Sounds'',
     pconfig = no_config \<lparr> ctype := ''rain'',
       dropletFrequency := Some (Notation ''16n''),
       reverb := Some \<lparr> decay = 25 / 10, preDelay = 2 / 100, wet = 35 / 100 \<rparr>,
       thunderEnabled := Some True \<rparr> \<rparr>"

definition LOFI :: profile where
  "LOFI = \<lparr> pid = ''lofi'', pname = ''Lo-fi Beats'',
     pconfig = no_config \<lparr> ctype := ''lofi'',
       reverb := Some \<lparr> decay = 15 / 10, preDelay = 15 / 1000, wet = 3 / 10 \<rparr>,
       delay := Some \<lparr> delayTime = ''8n.'', feedback = 35 / 100, delayWet = 2 / 10 \<rparr>,
       bitCrush := Some 6 \<rparr> \<rparr>"

definition MINIMAL :: profile where
  "MINIMAL = \<lparr> pid = ''minimal'', pname = ''Minimal Tones'',
     pconfig = no_config \<lparr> ctype := ''minimal'',
       interval := Some (Notation ''2n''),
       reverb := Some \<lparr> decay = 7, preDelay = 12 / 100, wet = 6 / 10 \<rparr>,
       delay := Some \<lparr> delayTime = ''4n.'', feedback = 3 / 10, delayWet = 35 / 100 \<rparr> \<rparr> \<rparr>"

definition FOREST :: profile where
  "FOREST = \<lparr> pid = ''forest'', pname = ''Forest'',
     pconfig = no_config \<lparr> ctype := ''forest'',
       lowPassFreq := Some 2500, highPassFreq := Some 80,
       reverb := Some \<lparr> decay = 45 / 10, preDelay = 1 / 10, wet = 4 / 10 \<rparr>,
       insectsEnabled := Some True, streamEnabled := Some True \<rparr> \<rparr>"

text \<open>The catalog, in the order of the object literal (\<open>Object.values\<close> keeps it).\<close>

definition SOUND_PROFILES :: "profile list" where
  "SOUND_PROFILES = [SCIENCE_FOCUS, DEEP_FOCUS, BINAURAL_ALPHA, BINAURAL_BETA, BROWN_NOISE,
     WHITE_NOISE, RAIN, LOFI, MINIMAL, FOREST]"

section \<open>Scheduled loops\<close>

text \<open>
  A \<open>Tone.Loop\<close> after \<open>loop.start(t)\<close>: the callback is scheduled on the Transport at
  \<open>t\<close> and then every \<open>interval\<close>. Tone.js is an external library; its loop is modelled by
  its documented schedule, \<open>startTime + k * interval\<close> for \<open>k = 0, 1, 2, ...\<close>, which is
  defined here for intervals given in seconds (a notation interval depends on the tempo).
\<close>

record loop =
  loopInterval :: interval
  startTime :: nat

fun trigger_time :: "loop \<Rightarrow> nat \<Rightarrow> nat option" where
  "trigger_time l k =
     (case loopInterval l of
        Seconds s \<Rightarrow> Some (startTime l + k * s)
      | Notation n \<Rightarrow> None)"

text \<open>A loop has a trigger scheduled exactly at time \<open>t\<close>.\<close>

definition fires_at :: "loop \<Rightarrow> nat \<Rightarrow> bool" where
  "fires_at l t =
     (case loopInterval l of
        Seconds s \<Rightarrow> startTime l \<le> t \<and> (t - startTime l) mod s = 0
      | Notation n \<Rightarrow> False)"

text \<open>
  The phasing layers of \<open>ScientificFocusEngine.start\<close>:
  \<^verbatim>\<open>const primeIntervals = config.primeIntervals || [17, 19, 23, 29, 31];\<close>
  \<^verbatim>\<open>primeIntervals.forEach((intervalSeconds, index) => { ...\<close>
  \<^verbatim>\<open>    const loop = new Tone.Loop(..., intervalSeconds); loop.start(index * 2); ... })\<close>
  An array is truthy even when empty, so only an absent property takes the default.
\<close>

definition primeIntervals_of :: "config \<Rightarrow> nat list" where
  "primeIntervals_of c =
     (case primeIntervals c of Some xs \<Rightarrow> xs | None \<Rightarrow> [17, 19, 23, 29, 31])"

definition phasing_loops :: "config \<Rightarrow> loop list" where
  "phasing_loops c =
     map (\<lambda>(index, intervalSeconds).
            \<lparr> loopInterval = Seconds intervalSeconds, startTime = index * 2 \<rparr>)
         (enumerate 0 (primeIntervals_of c))"

section \<open>The audio graph and the Transport (Tone.js objects the engine creates)\<close>

text \<open>
  Tone.js is an external library. Its objects are kept in a store, addressed by the index
  at which they were created, so that an object can still be inspected after an engine has
  dropped its reference. A node records its class, whether it is a running source
  (\<open>start()\<close> called and not yet \<open>stop()\<close>), and how many times \<open>dispose()\<close> was called
  on it. Synthesis parameters (frequencies, envelopes, volumes) are not recorded.
\<close>

datatype filter_type = highpass | lowpass | bandpass

datatype tone_class =
    Limiter | Filter filter_type | BitCrusher | Reverb | PingPongDelay
  | PolySynth | FMSynth | Synth | MonoSynth | NoiseSynth
  | Noise | Oscillator | LFO | Gain | Panner | AutoPanner | Tremolo

record node =
  cls :: tone_class
  running :: bool
  disposeCalls :: nat

datatype target = Destination | Node nat

datatype variant =
    GenerativeEngine | ScientificFocusEngine | BinauralEngine | NoiseEngine
  | RainEngine | ForestEngine | LofiEngine | MinimalEngine

text \<open>An instance of a subclass of \<open>SoundEngine\<close>: \<open>this.config\<close>, \<open>this.components\<close>,
  \<open>this.loops\<close>; the two lists hold references into the store.\<close>

record program =
  engineClass :: variant
  config :: config
  components :: "nat list"
  loops :: "nat list"

text \<open>
  What the module variable \<open>currentEngine\<close> can refer to: an engine instance, or (see
  \<open>createEngine\<close>) the config object itself, which \<open>new Object(config)\<close> returns.
\<close>

datatype engine_ref = Program nat | ConfigObject config

text \<open>Calls recorded for accounting: \<open>dispose()\<close> entered on an engine, and an engine
  assigned to \<open>currentEngine\<close>.\<close>

datatype event = DisposeCalled nat | Installed nat

text \<open>
  The state of the page: the store, the Transport (started or not, the loops that have
  callbacks scheduled on it, its position) and the two module variables of
  profileEngine.js. \<open>edges\<close> holds the connections of the master chain's nodes and of a
  filter that an engine splices into the chain; the wiring among the other nodes of a
  sound layer is not recorded. The tempo is not modelled.
\<close>

record world =
  nodes :: "node list"
  edges :: "(nat \<times> target) list"
  loopStore :: "loop list"
  programs :: "program list"
  transportStarted :: bool
  transportEvents :: "nat list"
  transportPosition :: nat
  currentEngine :: "engine_ref option"
  audioInitialized :: bool
  calls :: "event list"

text \<open>The state when the module has just been loaded.\<close>

definition initial_world :: world where
  "initial_world = \<lparr> nodes = [], edges = [], loopStore = [], programs = [],
     transportStarted = False, transportEvents = [], transportPosition = 0,
     currentEngine = None, audioInitialized = False, calls = [] \<rparr>"

text \<open>
  What the environment does during one call of \<open>createEngine\<close>: whether \<open>Tone.start()\<close>
  resolves, whether \<open>generate()\<close> of the master chain's reverb resolves, and whether
  \<open>generate()\<close> of the rain engine's thunder reverb resolves.
\<close>

record env =
  toneStartOk :: bool
  chainReverbOk :: bool
  thunderReverbOk :: bool

datatype error =
    AudioInitError
  | UnknownProfileType string
  | GraphBuildError
  | TypeError

text \<open>\<open>new Tone.X(...)\<close>; the flag says whether the source calls \<open>start()\<close> on it.\<close>

definition new_node :: "tone_class \<Rightarrow> bool \<Rightarrow> world \<Rightarrow> nat \<times> world" where
  "new_node c r w =
     (length (nodes w),
      w \<lparr> nodes := nodes w @ [\<lparr> cls = c, running = r, disposeCalls = 0 \<rparr>] \<rparr>)"

fun new_nodes :: "(tone_class \<times> bool) list \<Rightarrow> world \<Rightarrow> nat list \<times> world" where
  "new_nodes [] w = ([], w)"
| "new_nodes ((c, r) # cs) w =
     (let (n, w1) = new_node c r w; (ns, w2) = new_nodes cs w1 in (n # ns, w2))"

definition connect :: "nat \<Rightarrow> target \<Rightarrow> world \<Rightarrow> world" where
  "connect n t w = w \<lparr> edges := edges w @ [(n, t)] \<rparr>"

definition disconnect :: "nat \<Rightarrow> world \<Rightarrow> world" where
  "disconnect n w = w \<lparr> edges := filter (\<lambda>(a, b). a \<noteq> n) (edges w) \<rparr>"

text \<open>\<open>new Tone.Loop(callback, interval)\<close> followed by \<open>loop.start(t)\<close>.\<close>

definition start_loop :: "loop \<Rightarrow> world \<Rightarrow> nat \<times> world" where
  "start_loop l w =
     (length (loopStore w),
      w \<lparr> loopStore := loopStore w @ [l],
          transportEvents := transportEvents w @ [length (loopStore w)] \<rparr>)"

fun start_loops :: "loop list \<Rightarrow> world \<Rightarrow> nat list \<times> world" where
  "start_loops [] w = ([], w)"
| "start_loops (l # ls) w =
     (let (n, w1) = start_loop l w; (ns, w2) = start_loops ls w1 in (n # ns, w2))"

definition Transport_start :: "world \<Rightarrow> world" where
  "Transport_start w = w \<lparr> transportStarted := True \<rparr>"

definition Transport_stop :: "world \<Rightarrow> world" where
  "Transport_stop w = w \<lparr> transportStarted := False \<rparr>"

definition Transport_cancel :: "world \<Rightarrow> world" where
  "Transport_cancel w = w \<lparr> transportEvents := [] \<rparr>"

section \<open>createMasterChain\<close>

text \<open>The \<open>options\<close> argument; an absent or \<open>null\<close> property is \<open>None\<close>.\<close>

record chain_options =
  oReverb :: "reverb_options option"
  oDelay :: "delay_options option"
  oHighPass :: "int option"
  oLowPass :: "int option"
  oBitCrush :: "int option"
  oLimiterThreshold :: "int option"

text \<open>The returned handle.\<close>

record chain =
  chainComponents :: "nat list"
  chainConnect :: nat
  chainLimiter :: nat
  chainReverb :: nat
  chainDelay :: "nat option"

text \<open>JavaScript truthiness of an optional number: \<open>undefined\<close>, \<open>null\<close> and \<open>0\<close> are falsy.\<close>

definition truthy_num :: "int option \<Rightarrow> bool" where
  "truthy_num v = (case v of None \<Rightarrow> False | Some n \<Rightarrow> n \<noteq> 0)"

text \<open>
  One optional stage of the chain:
  \<^verbatim>\<open>const x = new Tone.X(...).connect(outputNode); components.push(x); outputNode = x;\<close>
  The state is the local \<open>components\<close>, the local \<open>outputNode\<close>, and the store.
\<close>

definition add_stage :: "tone_class \<Rightarrow> nat list \<times> nat \<times> world \<Rightarrow> nat list \<times> nat \<times> world" where
  "add_stage c st =
     (case st of (comps, outputNode, w) \<Rightarrow>
        (let (n, w1) = new_node c False w
         in (comps @ [n], n, connect n (Node outputNode) w1)))"

text \<open>
  \<open>createMasterChain(options)\<close> is asynchronous: it runs up to
  \<open>await reverbNode.generate()\<close>, where it suspends, and is resumed when the generation has
  resolved or rejected. The locals that are live across the await are kept in a record.
  The function has no \<open>try\<close>, \<open>catch\<close> or \<open>finally\<close>.
\<close>

record chain_build =
  builtComponents :: "nat list"
  builtLimiter :: nat
  builtReverb :: nat

text \<open>From the entry to the await: the limiter, the optional filters and bit-crusher and
  the reverb node are created and connected.\<close>

definition createMasterChain_begin :: "chain_options \<Rightarrow> world \<Rightarrow> chain_build \<times> world" where
  "createMasterChain_begin options w =
     (let (limiter, w1) = new_node Limiter False w;
          st0 = ([limiter], limiter, connect limiter Destination w1);
          st1 = (if truthy_num (oHighPass options) then add_stage (Filter highpass) st0 else st0);
          st2 = (if truthy_num (oLowPass options) then add_stage (Filter lowpass) st1 else st1);
          st3 = (if truthy_num (oBitCrush options) then add_stage BitCrusher st2 else st2)
      in case st3 of (comps, outputNode, w3) \<Rightarrow>
        (let (reverbNode, w4) = new_node Reverb False w3
         in (\<lparr> builtComponents = comps, builtLimiter = limiter, builtReverb = reverbNode \<rparr>,
             connect reverbNode (Node outputNode) w4)))"

text \<open>From the await to the return; the first argument is the outcome of \<open>generate()\<close>.
  When it rejected, the function rejects at that line.\<close>

definition createMasterChain_resume ::
    "bool \<Rightarrow> chain_options \<Rightarrow> chain_build \<Rightarrow> world \<Rightarrow> (error + chain) \<times> world" where
  "createMasterChain_resume generateOk options b w =
     (if \<not> generateOk then (Inl GraphBuildError, w)
      else
        (case oDelay options of
           None \<Rightarrow>
             (Inr \<lparr> chainComponents = builtComponents b @ [builtReverb b],
                    chainConnect = builtReverb b, chainLimiter = builtLimiter b,
                    chainReverb = builtReverb b, chainDelay = None \<rparr>, w)
         | Some d \<Rightarrow>
             (let (delayNode, w1) = new_node PingPongDelay False w;
                  w2 = connect delayNode (Node (builtReverb b)) w1
              in (Inr \<lparr> chainComponents = builtComponents b @ [builtReverb b, delayNode],
                        chainConnect = delayNode, chainLimiter = builtLimiter b,
                        chainReverb = builtReverb b, chainDelay = Some delayNode \<rparr>, w2))))"

text \<open>The whole function, when nothing else runs while it is suspended.\<close>

definition createMasterChain :: "bool \<Rightarrow> chain_options \<Rightarrow> world \<Rightarrow> (error + chain) \<times> world" where
  "createMasterChain generateOk options w =
     (let (b, w1) = createMasterChain_begin options w
      in createMasterChain_resume generateOk options b w1)"

section \<open>SoundEngine: the base class\<close>

text \<open>\<open>this.components.push(...)\<close> and \<open>this.loops.push(...)\<close> on engine \<open>p\<close>.\<close>

definition push_components :: "nat \<Rightarrow> nat list \<Rightarrow> world \<Rightarrow> world" where
  "push_components p ns w =
     w \<lparr> programs := (programs w)
           [p := (programs w ! p) \<lparr> components := components (programs w ! p) @ ns \<rparr>] \<rparr>"

definition push_loops :: "nat \<Rightarrow> nat list \<Rightarrow> world \<Rightarrow> world" where
  "push_loops p ns w =
     w \<lparr> programs := (programs w)
           [p := (programs w ! p) \<lparr> loops := loops (programs w ! p) @ ns \<rparr>] \<rparr>"

text \<open>\<open>new EngineClass(config)\<close>: the constructor of \<open>SoundEngine\<close>.\<close>

definition new_program :: "variant \<Rightarrow> config \<Rightarrow> world \<Rightarrow> nat \<times> world" where
  "new_program v c w =
     (length (programs w),
      w \<lparr> programs := programs w @
            [\<lparr> engineClass = v, config = c, components = [], loops = [] \<rparr>] \<rparr>)"

text \<open>
  Which Tone.js classes have the optional methods that \<open>stop()\<close> probes with \<open>comp?.stop\<close>
  and \<open>comp?.releaseAll\<close>: sources, LFOs and LFO-driven effects have \<open>stop\<close>; only
  \<open>PolySynth\<close> has \<open>releaseAll\<close>. Every class has \<open>dispose\<close>.
\<close>

definition has_stop :: "tone_class \<Rightarrow> bool" where
  "has_stop c = (c = Noise \<or> c = Oscillator \<or> c = LFO \<or> c = AutoPanner \<or> c = Tremolo)"

definition has_releaseAll :: "tone_class \<Rightarrow> bool" where
  "has_releaseAll c = (c = PolySynth)"

text \<open>\<open>loop.stop(); loop.cancel();\<close> leaves the loop with no callback scheduled.\<close>

definition loop_stop_cancel :: "nat \<Rightarrow> world \<Rightarrow> world" where
  "loop_stop_cancel l w = w \<lparr> transportEvents := removeAll l (transportEvents w) \<rparr>"

text \<open>\<open>comp.releaseAll()\<close> releases held voices; voices are not part of the state.\<close>

definition comp_releaseAll :: "nat \<Rightarrow> world \<Rightarrow> world" where
  "comp_releaseAll n w = w"

definition comp_stop :: "nat \<Rightarrow> world \<Rightarrow> world" where
  "comp_stop n w =
     (if n < length (nodes w) \<and> has_stop (cls (nodes w ! n))
      then w \<lparr> nodes := (nodes w)[n := (nodes w ! n) \<lparr> running := False \<rparr>] \<rparr>
      else w)"

text \<open>\<open>comp.dispose()\<close>: the call is counted and the node is disconnected.\<close>

definition comp_dispose :: "nat \<Rightarrow> world \<Rightarrow> world" where
  "comp_dispose n w =
     (if n < length (nodes w)
      then w \<lparr> nodes := (nodes w)
                 [n := (nodes w ! n) \<lparr> disposeCalls := Suc (disposeCalls (nodes w ! n)) \<rparr>],
               edges := filter (\<lambda>(a, b). a \<noteq> n \<and> b \<noteq> Node n) (edges w) \<rparr>
      else w)"

text \<open>
  \<^verbatim>\<open>stop() { this.loops.forEach(loop => { if (loop) { loop.stop(); loop.cancel(); } });\<close>
  \<^verbatim>\<open>         this.components.forEach(comp => {\<close>
  \<^verbatim>\<open>             if (comp?.releaseAll) comp.releaseAll(); if (comp?.stop) comp.stop(); }); }\<close>
\<close>

definition stop :: "nat \<Rightarrow> world \<Rightarrow> world" where
  "stop p w =
     (let w1 = fold loop_stop_cancel (loops (programs w ! p)) w
      in fold (\<lambda>comp w'. comp_stop comp (comp_releaseAll comp w'))
              (components (programs w ! p)) w1)"

text \<open>
  \<^verbatim>\<open>dispose() { this.stop(); this.loops = [];\<close>
  \<^verbatim>\<open>            this.components.forEach(comp => { if (comp?.dispose) comp.dispose(); });\<close>
  \<^verbatim>\<open>            this.components = []; }\<close>
\<close>

definition dispose :: "nat \<Rightarrow> world \<Rightarrow> world" where
  "dispose p w =
     (let w0 = w \<lparr> calls := calls w @ [DisposeCalled p] \<rparr>;
          w1 = stop p w0;
          w2 = w1 \<lparr> programs := (programs w1)[p := (programs w1 ! p) \<lparr> loops := [] \<rparr>] \<rparr>;
          w3 = fold comp_dispose (components (programs w2 ! p)) w2
      in w3 \<lparr> programs := (programs w3)[p := (programs w3 ! p) \<lparr> components := [] \<rparr>] \<rparr>)"

section \<open>The eight engines\<close>

text \<open>
  Each \<open>start()\<close> first awaits \<open>createMasterChain\<close> and pushes the chain's components, then
  creates its sound layers. A layer is written as the list of nodes it pushes, in the order
  of the push, each with its class and whether the source starts it; nodes are created in
  that order. A loop layer is the list of loops the source creates, starts and pushes.
\<close>

definition layer :: "nat \<Rightarrow> (tone_class \<times> bool) list \<Rightarrow> world \<Rightarrow> world" where
  "layer p specs w = (let (ns, w1) = new_nodes specs w in push_components p ns w1)"

definition loop_layer :: "nat \<Rightarrow> loop list \<Rightarrow> world \<Rightarrow> world" where
  "loop_layer p ls w = (let (ns, w1) = start_loops ls w in push_loops p ns w1)"

text \<open>An interval read from the config; \<open>Tone.Loop\<close> falls back to \<open>'4n'\<close> on \<open>undefined\<close>.\<close>

definition interval_or_default :: "interval option \<Rightarrow> interval" where
  "interval_or_default i = (case i of Some x \<Rightarrow> x | None \<Rightarrow> Notation ''4n'')"

text \<open>\<open>config.flag !== false\<close>\<close>

definition enabled :: "bool option \<Rightarrow> bool" where
  "enabled b = (b \<noteq> Some False)"

definition no_options :: chain_options where
  "no_options = \<lparr> oReverb = None, oDelay = None, oHighPass = None, oLowPass = None,
     oBitCrush = None, oLimiterThreshold = None \<rparr>"

text \<open>
  For each engine: the options it passes to \<open>createMasterChain\<close>, what it does once the
  chain is there (its layers), and \<open>start()\<close> as a whole when nothing else runs while it
  is suspended. \<open>c\<close> is the local \<open>config\<close>, bound from \<open>this\<close> on entry.
\<close>

definition GenerativeEngine_options :: "config \<Rightarrow> chain_options" where
  "GenerativeEngine_options c =
     no_options \<lparr> oReverb := reverb c, oDelay := delay c,
       oHighPass := Some 100, oLowPass := Some 2000 \<rparr>"

definition GenerativeEngine_layers :: "config \<Rightarrow> nat \<Rightarrow> chain \<Rightarrow> world \<Rightarrow> world" where
  "GenerativeEngine_layers c p ch w1 =
     (let w2 = push_components p (chainComponents ch) w1;
          w3 = layer p [(PolySynth, False), (PolySynth, False), (Noise, True)] w2;
          w4 = loop_layer p
                 [\<lparr> loopInterval = interval_or_default (padInterval c), startTime = 0 \<rparr>] w3
      in loop_layer p
           [\<lparr> loopInterval = interval_or_default (modularInterval c), startTime = 0 \<rparr>] w4)"

definition GenerativeEngine_start :: "env \<Rightarrow> nat \<Rightarrow> world \<Rightarrow> error option \<times> world" where
  "GenerativeEngine_start e p w =
     (let c = config (programs w ! p) in
      case createMasterChain (chainReverbOk e) (GenerativeEngine_options c) w of
        (Inl err, w1) \<Rightarrow> (Some err, w1)
      | (Inr ch, w1) \<Rightarrow> (None, GenerativeEngine_layers c p ch w1))"

definition BinauralEngine_options :: "config \<Rightarrow> chain_options" where
  "BinauralEngine_options c = no_options \<lparr> oReverb := reverb c, oLowPass := Some 800 \<rparr>"

definition BinauralEngine_layers :: "config \<Rightarrow> nat \<Rightarrow> chain \<Rightarrow> world \<Rightarrow> world" where
  "BinauralEngine_layers c p ch w1 =
     (let w2 = push_components p (chainComponents ch) w1
      in layer p
           [(Oscillator, True), (Oscillator, True), (Oscillator, True),
            (Oscillator, True), (Panner, False), (Panner, False), (LFO, True),
            (Gain, False), (LFO, True), (Noise, True), (Filter lowpass, False)] w2)"

definition BinauralEngine_start :: "env \<Rightarrow> nat \<Rightarrow> world \<Rightarrow> error option \<times> world" where
  "BinauralEngine_start e p w =
     (let c = config (programs w ! p) in
      case createMasterChain (chainReverbOk e) (BinauralEngine_options c) w of
        (Inl err, w1) \<Rightarrow> (Some err, w1)
      | (Inr ch, w1) \<Rightarrow> (None, BinauralEngine_layers c p ch w1))"

definition NoiseEngine_options :: "config \<Rightarrow> chain_options" where
  "NoiseEngine_options c =
     no_options \<lparr> oReverb := reverb c, oHighPass := highPassFreq c,
       oLowPass := lowPassFreq c \<rparr>"

definition NoiseEngine_layers :: "config \<Rightarrow> nat \<Rightarrow> chain \<Rightarrow> world \<Rightarrow> world" where
  "NoiseEngine_layers c p ch w1 =
     (let w2 = push_components p (chainComponents ch) w1
      in layer p
           [(Noise, True), (Noise, True), (Noise, True), (Filter lowpass, False),
            (Filter lowpass, False), (LFO, True), (AutoPanner, True)] w2)"

definition NoiseEngine_start :: "env \<Rightarrow> nat \<Rightarrow> world \<Rightarrow> error option \<times> world" where
  "NoiseEngine_start e p w =
     (let c = config (programs w ! p) in
      case createMasterChain (chainReverbOk e) (NoiseEngine_options c) w of
        (Inl err, w1) \<Rightarrow> (Some err, w1)
      | (Inr ch, w1) \<Rightarrow> (None, NoiseEngine_layers c p ch w1))"

text \<open>
  The rain engine has a second suspension point, \<open>await thunderReverb.generate()\<close>, reached
  after the first five layers and their three loops have been pushed and started. Its
  layers end either done or suspended there, with the locals \<open>thunderFilter\<close> and
  \<open>thunderReverb\<close> live across the await.
\<close>

datatype layers_result = Layers_done | Layers_await_thunder nat nat

definition RainEngine_options :: "config \<Rightarrow> chain_options" where
  "RainEngine_options c = no_options \<lparr> oReverb := reverb c \<rparr>"

definition RainEngine_layers ::
    "config \<Rightarrow> nat \<Rightarrow> chain \<Rightarrow> world \<Rightarrow> layers_result \<times> world" where
  "RainEngine_layers c p ch w1 =
     (let w2 = push_components p (chainComponents ch) w1;
          w3 = layer p
                 [(Noise, True), (Filter lowpass, False), (Noise, True),
                  (Filter lowpass, False), (Filter highpass, False), (LFO, True),
                  (LFO, True)] w2;
          w4 = loop_layer p
                 [\<lparr> loopInterval = Notation ''32n'', startTime = 0 \<rparr>,
                  \<lparr> loopInterval = interval_or_default (dropletFrequency c), startTime = 0 \<rparr>,
                  \<lparr> loopInterval = Notation ''4n'', startTime = 0 \<rparr>] w3;
          w5 = layer p
                 [(NoiseSynth, False), (Filter lowpass, False), (NoiseSynth, False),
                  (Filter lowpass, False), (NoiseSynth, False), (Filter lowpass, False)] w4
      in if enabled (thunderEnabled c)
         then
           (let (thunderFilter, w6) = new_node (Filter lowpass) False w5;
                (thunderReverb, w7) = new_node Reverb False w6
            in (Layers_await_thunder thunderFilter thunderReverb, w7))
         else (Layers_done, w5))"

text \<open>From the second await to the end; the first argument is the outcome of the thunder
  reverb's \<open>generate()\<close>.\<close>

definition RainEngine_thunder ::
    "bool \<Rightarrow> nat \<Rightarrow> nat \<Rightarrow> nat \<Rightarrow> world \<Rightarrow> error option \<times> world" where
  "RainEngine_thunder generateOk p thunderFilter thunderReverb w =
     (if \<not> generateOk then (Some GraphBuildError, w)
      else
        (let (thunderSynth, w1) = new_node NoiseSynth False w;
             w2 = loop_layer p [\<lparr> loopInterval = Seconds 47, startTime = 30 \<rparr>] w1
         in (None, push_components p [thunderSynth, thunderReverb, thunderFilter] w2)))"

definition RainEngine_start :: "env \<Rightarrow> nat \<Rightarrow> world \<Rightarrow> error option \<times> world" where
  "RainEngine_start e p w =
     (let c = config (programs w ! p) in
      case createMasterChain (chainReverbOk e) (RainEngine_options c) w of
        (Inl err, w1) \<Rightarrow> (Some err, w1)
      | (Inr ch, w1) \<Rightarrow>
          (case RainEngine_layers c p ch w1 of
             (Layers_done, w2) \<Rightarrow> (None, w2)
           | (Layers_await_thunder thunderFilter thunderReverb, w2) \<Rightarrow>
               RainEngine_thunder (thunderReverbOk e) p thunderFilter thunderReverb w2))"

definition ForestEngine_options :: "config \<Rightarrow> chain_options" where
  "ForestEngine_options c =
     no_options \<lparr> oReverb := reverb c, oHighPass := highPassFreq c,
       oLowPass := lowPassFreq c \<rparr>"

definition ForestEngine_layers :: "config \<Rightarrow> nat \<Rightarrow> chain \<Rightarrow> world \<Rightarrow> world" where
  "ForestEngine_layers c p ch w1 =
     (let w2 = push_components p (chainComponents ch) w1;
          w3 = layer p [(Noise, True), (Filter lowpass, False), (LFO, True), (LFO, True)] w2;
          w4 = layer p [(Noise, True), (Filter highpass, False), (LFO, True)] w3;
          w5 = loop_layer p
                 [\<lparr> loopInterval = Notation ''2n'', startTime = 2 \<rparr>,
                  \<lparr> loopInterval = Seconds 4, startTime = 5 \<rparr>] w4;
          w6 = layer p [(FMSynth, False), (FMSynth, False)] w5;
          w7 = (if enabled (insectsEnabled c)
                then layer p [(Oscillator, True), (Tremolo, True), (Oscillator, True),
                              (Tremolo, True)] w6
                else w6)
      in if enabled (streamEnabled c)
         then layer p [(Noise, True), (Filter bandpass, False), (LFO, True)] w7
         else w7)"

definition ForestEngine_start :: "env \<Rightarrow> nat \<Rightarrow> world \<Rightarrow> error option \<times> world" where
  "ForestEngine_start e p w =
     (let c = config (programs w ! p) in
      case createMasterChain (chainReverbOk e) (ForestEngine_options c) w of
        (Inl err, w1) \<Rightarrow> (Some err, w1)
      | (Inr ch, w1) \<Rightarrow> (None, ForestEngine_layers c p ch w1))"

definition LofiEngine_options :: "config \<Rightarrow> chain_options" where
  "LofiEngine_options c =
     no_options \<lparr> oReverb := reverb c, oDelay := delay c,
       oBitCrush := bitCrush c, oLowPass := Some 3500 \<rparr>"

definition LofiEngine_layers :: "config \<Rightarrow> nat \<Rightarrow> chain \<Rightarrow> world \<Rightarrow> world" where
  "LofiEngine_layers c p ch w1 =
     (let w2 = push_components p (chainComponents ch) w1;
          w3 = layer p [(Filter lowpass, False), (LFO, True)] w2;
          w4 = layer p [(PolySynth, False), (MonoSynth, False)] w3;
          w5 = loop_layer p [\<lparr> loopInterval = Notation ''16n'', startTime = 0 \<rparr>] w4;
          w6 = layer p [(Noise, True), (Filter highpass, False), (NoiseSynth, False)] w5
      in loop_layer p
           [\<lparr> loopInterval = Notation ''1m'', startTime = 0 \<rparr>,
            \<lparr> loopInterval = Notation ''8n'', startTime = 0 \<rparr>] w6)"

definition LofiEngine_start :: "env \<Rightarrow> nat \<Rightarrow> world \<Rightarrow> error option \<times> world" where
  "LofiEngine_start e p w =
     (let c = config (programs w ! p) in
      case createMasterChain (chainReverbOk e) (LofiEngine_options c) w of
        (Inl err, w1) \<Rightarrow> (Some err, w1)
      | (Inr ch, w1) \<Rightarrow> (None, LofiEngine_layers c p ch w1))"

text \<open>
  The minimal engine re-routes the chain's delay, when there is one, through its breathing
  filter: \<^verbatim>\<open>if (chain.delay) { chain.delay.disconnect(); chain.delay.connect(breathFilter); }\<close>
\<close>

definition MinimalEngine_options :: "config \<Rightarrow> chain_options" where
  "MinimalEngine_options c = no_options \<lparr> oReverb := reverb c, oDelay := delay c \<rparr>"

definition MinimalEngine_layers :: "config \<Rightarrow> nat \<Rightarrow> chain \<Rightarrow> world \<Rightarrow> world" where
  "MinimalEngine_layers c p ch w1 =
     (let w2 = push_components p (chainComponents ch) w1;
          w3 = layer p [(PolySynth, False), (PolySynth, False), (Synth, False)] w2;
          (breathFilter, w4) = new_node (Filter lowpass) False w3;
          w5 = connect breathFilter (Node (chainLimiter ch)) w4;
          (breathLFO, w6) = new_node LFO True w5;
          w7 = (case chainDelay ch of
                  Some d \<Rightarrow> connect d (Node breathFilter) (disconnect d w6)
                | None \<Rightarrow> w6);
          w8 = push_components p [breathFilter, breathLFO] w7
      in loop_layer p
           [\<lparr> loopInterval = interval_or_default (interval c), startTime = 0 \<rparr>,
            \<lparr> loopInterval = Seconds 7, startTime = 3 \<rparr>] w8)"

definition MinimalEngine_start :: "env \<Rightarrow> nat \<Rightarrow> world \<Rightarrow> error option \<times> world" where
  "MinimalEngine_start e p w =
     (let c = config (programs w ! p) in
      case createMasterChain (chainReverbOk e) (MinimalEngine_options c) w of
        (Inl err, w1) \<Rightarrow> (Some err, w1)
      | (Inr ch, w1) \<Rightarrow> (None, MinimalEngine_layers c p ch w1))"

text \<open>
  The body of \<open>primeIntervals.forEach\<close> in the scientific engine: one pad synth and one
  started loop per interval, pushed as they are created.
\<close>

fun phasing_layers :: "nat \<Rightarrow> loop list \<Rightarrow> world \<Rightarrow> world" where
  "phasing_layers p [] w = w"
| "phasing_layers p (l # ls) w =
     phasing_layers p ls (loop_layer p [l] (layer p [(PolySynth, False)] w))"

text \<open>
  The scientific engine ends by re-routing the chain's reverb through its breathing filter:
  \<^verbatim>\<open>chain.reverb.disconnect(); chain.reverb.connect(breathingFilter);\<close>
\<close>

definition ScientificFocusEngine_options :: "config \<Rightarrow> chain_options" where
  "ScientificFocusEngine_options c =
     no_options \<lparr> oReverb := reverb c, oDelay := delay c,
       oHighPass := Some 80, oLowPass := Some 2500 \<rparr>"

definition ScientificFocusEngine_layers :: "config \<Rightarrow> nat \<Rightarrow> chain \<Rightarrow> world \<Rightarrow> world" where
  "ScientificFocusEngine_layers c p ch w1 =
     (let w2 = push_components p (chainComponents ch) w1;
          w3 = layer p [(Noise, True)] w2;
          w4 = (if enabled (gammaEnabled c)
                then layer p [(Oscillator, True), (LFO, True), (Gain, False)] w3
                else w3);
          w5 = phasing_layers p (phasing_loops c) w4;
          w6 = (if enabled (textureEnabled c)
                then loop_layer p [\<lparr> loopInterval = Seconds 37, startTime = 5 \<rparr>]
                       (layer p [(FMSynth, False)] w5)
                else w5);
          (breathingLFO, w7) = new_node LFO True w6;
          (breathingFilter, w8) = new_node (Filter lowpass) False w7;
          w9 = connect breathingFilter (Node (chainLimiter ch)) w8;
          w10 = connect (chainReverb ch) (Node breathingFilter)
                  (disconnect (chainReverb ch) w9)
      in push_components p [breathingLFO, breathingFilter] w10)"

definition ScientificFocusEngine_start :: "env \<Rightarrow> nat \<Rightarrow> world \<Rightarrow> error option \<times> world" where
  "ScientificFocusEngine_start e p w =
     (let c = config (programs w ! p) in
      case createMasterChain (chainReverbOk e) (ScientificFocusEngine_options c) w of
        (Inl err, w1) \<Rightarrow> (Some err, w1)
      | (Inr ch, w1) \<Rightarrow> (None, ScientificFocusEngine_layers c p ch w1))"

text \<open>\<open>currentEngine.start()\<close>: dispatch on the class of the instance.\<close>

definition start :: "env \<Rightarrow> nat \<Rightarrow> world \<Rightarrow> error option \<times> world" where
  "start e p w =
     (case engineClass (programs w ! p) of
        GenerativeEngine \<Rightarrow> GenerativeEngine_start e p w
      | ScientificFocusEngine \<Rightarrow> ScientificFocusEngine_start e p w
      | BinauralEngine \<Rightarrow> BinauralEngine_start e p w
      | NoiseEngine \<Rightarrow> NoiseEngine_start e p w
      | RainEngine \<Rightarrow> RainEngine_start e p w
      | ForestEngine \<Rightarrow> ForestEngine_start e p w
      | LofiEngine \<Rightarrow> LofiEngine_start e p w
      | MinimalEngine \<Rightarrow> MinimalEngine_start e p w)"

text \<open>The same dispatch for the two parts of a \<open>start()\<close> around its first await.\<close>

definition engine_options :: "variant \<Rightarrow> config \<Rightarrow> chain_options" where
  "engine_options v c =
     (case v of
        GenerativeEngine \<Rightarrow> GenerativeEngine_options c
      | ScientificFocusEngine \<Rightarrow> ScientificFocusEngine_options c
      | BinauralEngine \<Rightarrow> BinauralEngine_options c
      | NoiseEngine \<Rightarrow> NoiseEngine_options c
      | RainEngine \<Rightarrow> RainEngine_options c
      | ForestEngine \<Rightarrow> ForestEngine_options c
      | LofiEngine \<Rightarrow> LofiEngine_options c
      | MinimalEngine \<Rightarrow> MinimalEngine_options c)"

definition engine_layers ::
    "variant \<Rightarrow> config \<Rightarrow> nat \<Rightarrow> chain \<Rightarrow> world \<Rightarrow> layers_result \<times> world" where
  "engine_layers v c p ch w =
     (case v of
        GenerativeEngine \<Rightarrow> (Layers_done, GenerativeEngine_layers c p ch w)
      | ScientificFocusEngine \<Rightarrow> (Layers_done, ScientificFocusEngine_layers c p ch w)
      | BinauralEngine \<Rightarrow> (Layers_done, BinauralEngine_layers c p ch w)
      | NoiseEngine \<Rightarrow> (Layers_done, NoiseEngine_layers c p ch w)
      | RainEngine \<Rightarrow> RainEngine_layers c p ch w
      | ForestEngine \<Rightarrow> (Layers_done, ForestEngine_layers c p ch w)
      | LofiEngine \<Rightarrow> (Layers_done, LofiEngine_layers c p ch w)
      | MinimalEngine \<Rightarrow> (Layers_done, MinimalEngine_layers c p ch w))"

section \<open>The registry and the lifecycle functions\<close>

text \<open>The own properties of the object literal \<open>ENGINE_TYPES\<close>.\<close>

definition ENGINE_TYPES :: "(string \<times> variant) list" where
  "ENGINE_TYPES =
     [(''generative'', GenerativeEngine), (''scientific'', ScientificFocusEngine),
      (''binaural'', BinauralEngine), (''noise'', NoiseEngine), (''rain'', RainEngine),
      (''forest'', ForestEngine), (''lofi'', LofiEngine), (''minimal'', MinimalEngine)]"

text \<open>
  \<open>ENGINE_TYPES[config.type]\<close> is a property read on a plain object, so it also finds what
  the object inherits from \<open>Object.prototype\<close>: \<open>constructor\<close> is the function \<open>Object\<close>, the
  other inherited names are built-in methods (and \<open>__proto__\<close> is the prototype object),
  none of which can be called with \<open>new\<close>. All of them are truthy. A \<open>type\<close> that is absent
  reads the key \<open>'undefined'\<close>, which is not a property.
\<close>

definition Object_prototype_members :: "string list" where
  "Object_prototype_members =
     [''__defineGetter__'', ''__defineSetter__'', ''hasOwnProperty'', ''__lookupGetter__'',
      ''__lookupSetter__'', ''isPrototypeOf'', ''propertyIsEnumerable'', ''toString'',
      ''valueOf'', ''__proto__'', ''toLocaleString'']"

datatype js_property = Undefined | Class variant | ObjectConstructor | NotAConstructor

definition get_ENGINE_TYPES :: "string \<Rightarrow> js_property" where
  "get_ENGINE_TYPES k =
     (case map_of ENGINE_TYPES k of
        Some v \<Rightarrow> Class v
      | None \<Rightarrow>
          if k = ''constructor'' then ObjectConstructor
          else if k \<in> set Object_prototype_members then NotAConstructor
          else Undefined)"

text \<open>
  \<^verbatim>\<open>export async function initProfileEngine() {\<close>
  \<^verbatim>\<open>    if (audioInitialized) return true;\<close>
  \<^verbatim>\<open>    try { await Tone.start(); audioInitialized = true; return true; }\<close>
  \<^verbatim>\<open>    catch (error) { ...; return false; } }\<close>
\<close>

definition initProfileEngine :: "env \<Rightarrow> world \<Rightarrow> bool \<times> world" where
  "initProfileEngine e w =
     (if audioInitialized w then (True, w)
      else if toneStartOk e then (True, w \<lparr> audioInitialized := True \<rparr>)
      else (False, w))"

text \<open>
  \<open>createEngine(profile)\<close>, in the blocks its comments mark: dispose the current engine,
  initialise audio, reset the Transport, create the new engine. The result is the value
  the promise resolves to, or the error it rejects with, together with the state left
  behind. This is one call run from entry to return with nothing else running while it
  is suspended; the next section splits it at its awaits.

  \<^item> \<open>if (currentEngine) { currentEngine.dispose(); currentEngine = null; }\<close>: when
    \<open>currentEngine\<close> is a config object (see below) it has no \<open>dispose\<close> and the call throws.
  \<^item> \<open>new EngineClass(config)\<close> with \<open>EngineClass = Object\<close> returns \<open>config\<close> itself, which
    is assigned to \<open>currentEngine\<close>; \<open>currentEngine.start()\<close> then throws, \<open>config\<close> having no
    \<open>start\<close>. With another inherited member \<open>new\<close> throws before the assignment.
  \<^item> \<open>currentEngine = new EngineClass(config); await currentEngine.start();\<close>: the
    assignment precedes the await, and nothing undoes it when \<open>start()\<close> rejects.
\<close>

definition dispose_current :: "world \<Rightarrow> world" where
  "dispose_current w =
     (case currentEngine w of
        Some (Program old) \<Rightarrow> (dispose old w) \<lparr> currentEngine := None \<rparr>
      | _ \<Rightarrow> w)"

text \<open>\<^verbatim>\<open>Tone.Transport.stop(); Tone.Transport.cancel(); Tone.Transport.position = 0;\<close>\<close>

definition reset_transport :: "world \<Rightarrow> world" where
  "reset_transport w = (Transport_cancel (Transport_stop w)) \<lparr> transportPosition := 0 \<rparr>"

text \<open>
  \<^verbatim>\<open>currentEngine = new EngineClass(config); await currentEngine.start();\<close>
  \<^verbatim>\<open>Tone.Transport.start(); return currentEngine;\<close>
\<close>

definition create_new_engine :: "env \<Rightarrow> variant \<Rightarrow> config \<Rightarrow> world \<Rightarrow> (error + engine_ref) \<times> world" where
  "create_new_engine e v cfg w =
     (let (p, w1) = new_program v cfg w;
          w2 = w1 \<lparr> currentEngine := Some (Program p), calls := calls w1 @ [Installed p] \<rparr>
      in case start e p w2 of
           (Some err, w3) \<Rightarrow> (Inl err, w3)
         | (None, w3) \<Rightarrow> (Inr (Program p), Transport_start w3))"

definition createEngine :: "env \<Rightarrow> profile \<Rightarrow> world \<Rightarrow> (error + engine_ref) \<times> world" where
  "createEngine e prof w =
     (case currentEngine w of
        Some (ConfigObject c) \<Rightarrow> (Inl TypeError, w)
      | _ \<Rightarrow>
        (let w1 = dispose_current w;
             (initialized, w2) = initProfileEngine e w1
         in if \<not> initialized then (Inl AudioInitError, w2)
            else
              (let w3 = reset_transport w2;
                   cfg = pconfig prof
               in case get_ENGINE_TYPES (ctype cfg) of
                    Undefined \<Rightarrow> (Inl (UnknownProfileType (ctype cfg)), w3)
                  | NotAConstructor \<Rightarrow> (Inl TypeError, w3)
                  | ObjectConstructor \<Rightarrow>
                      (Inl TypeError, w3 \<lparr> currentEngine := Some (ConfigObject cfg) \<rparr>)
                  | Class v \<Rightarrow> create_new_engine e v cfg w3)))"

text \<open>
  \<^verbatim>\<open>export function stopEngine() { if (currentEngine) { currentEngine.stop(); }\<close>
  \<^verbatim>\<open>                               Tone.Transport.stop(); }\<close>
\<close>

definition stopEngine :: "world \<Rightarrow> error + world" where
  "stopEngine w =
     (case currentEngine w of
        None \<Rightarrow> Inr (Transport_stop w)
      | Some (Program p) \<Rightarrow> Inr (Transport_stop (stop p w))
      | Some (ConfigObject c) \<Rightarrow> Inl TypeError)"

text \<open>
  \<^verbatim>\<open>export function disposeEngine() {\<close>
  \<^verbatim>\<open>    if (currentEngine) { currentEngine.dispose(); currentEngine = null; }\<close>
  \<^verbatim>\<open>    Tone.Transport.stop(); Tone.Transport.cancel(); }\<close>
\<close>

definition disposeEngine :: "world \<Rightarrow> error + world" where
  "disposeEngine w =
     (case currentEngine w of
        None \<Rightarrow> Inr (Transport_cancel (Transport_stop w))
      | Some (Program p) \<Rightarrow>
          Inr (Transport_cancel (Transport_stop ((dispose p w) \<lparr> currentEngine := None \<rparr>)))
      | Some (ConfigObject c) \<Rightarrow> Inl TypeError)"

definition getCurrentEngine :: "world \<Rightarrow> engine_ref option" where
  "getCurrentEngine w = currentEngine w"

section \<open>createEngine as an asynchronous function\<close>

text \<open>
  \<open>createEngine\<close> above is one call run from entry to return with nothing else running in
  between. The function is \<open>async\<close>: it suspends at \<open>await initProfileEngine()\<close> and, inside
  \<open>await currentEngine.start()\<close>, at every \<open>await ...generate()\<close>; while it is suspended
  other code runs, in particular other calls of \<open>createEngine\<close>. Between two suspension
  points JavaScript runs a call without interruption. A call in progress is a task: where
  it is suspended, with the locals live across the await, or how it ended.

  \<^item> \<open>Await_init e prof pending\<close>: suspended at \<open>await initProfileEngine()\<close>; \<open>pending\<close> tells
    whether \<open>initProfileEngine\<close> is itself awaiting \<open>Tone.start()\<close> or has returned \<open>true\<close>
    at once because audio was initialised.
  \<^item> \<open>Await_chain e v c p b\<close>: engine \<open>p\<close> of class \<open>v\<close> with config \<open>c\<close> is in \<open>start()\<close>,
    suspended in \<open>createMasterChain\<close> at the generation of the chain's reverb.
  \<^item> \<open>Await_thunder e p thunderFilter thunderReverb\<close>: the rain engine \<open>p\<close> is suspended at
    the generation of its thunder reverb.
  \<^item> \<open>Resolved r\<close>: the promise resolved with \<open>r\<close>, the value of \<open>currentEngine\<close> read by
    \<open>return currentEngine\<close>; \<open>Rejected err\<close>: it rejected.
\<close>

datatype task =
    Await_init env profile bool
  | Await_chain env variant config nat chain_build
  | Await_thunder env nat nat nat
  | Resolved "engine_ref option"
  | Rejected error

text \<open>The call itself: the body up to \<open>await initProfileEngine()\<close>, that is, the disposal of
  the current engine and the test \<open>if (audioInitialized)\<close> inside \<open>initProfileEngine\<close>.\<close>

definition createEngine_call :: "env \<Rightarrow> profile \<Rightarrow> world \<Rightarrow> task \<times> world" where
  "createEngine_call e prof w =
     (case currentEngine w of
        Some (ConfigObject c) \<Rightarrow> (Rejected TypeError, w)
      | _ \<Rightarrow>
        (let w1 = dispose_current w
         in (Await_init e prof (\<not> audioInitialized w1), w1)))"

text \<open>\<^verbatim>\<open>Tone.Transport.start(); return currentEngine;\<close>\<close>

definition finish_createEngine :: "world \<Rightarrow> task \<times> world" where
  "finish_createEngine w =
     (let w1 = Transport_start w in (Resolved (currentEngine w1), w1))"

text \<open>
  A suspended task is resumed and runs to its next await or to its end. Resuming
  \<open>Await_init\<close> completes \<open>initProfileEngine\<close> (\<open>audioInitialized = true\<close> when
  \<open>Tone.start()\<close> resolved), then resets the Transport, looks the type up, constructs and
  installs the engine and enters its \<open>start()\<close> up to the first await. A task that has
  ended stays as it is.
\<close>

definition resume_task :: "task \<Rightarrow> world \<Rightarrow> task \<times> world" where
  "resume_task t w =
     (case t of
        Await_init e prof pending \<Rightarrow>
          (let (initialized, w2) =
                 (if pending
                  then (if toneStartOk e then (True, w \<lparr> audioInitialized := True \<rparr>)
                        else (False, w))
                  else (True, w))
           in if \<not> initialized then (Rejected AudioInitError, w2)
              else
                (let w3 = reset_transport w2;
                     cfg = pconfig prof
                 in case get_ENGINE_TYPES (ctype cfg) of
                      Undefined \<Rightarrow> (Rejected (UnknownProfileType (ctype cfg)), w3)
                    | NotAConstructor \<Rightarrow> (Rejected TypeError, w3)
                    | ObjectConstructor \<Rightarrow>
                        (Rejected TypeError, w3 \<lparr> currentEngine := Some (ConfigObject cfg) \<rparr>)
                    | Class v \<Rightarrow>
                        (let (p, w4) = new_program v cfg w3;
                             w5 = w4 \<lparr> currentEngine := Some (Program p),
                                       calls := calls w4 @ [Installed p] \<rparr>;
                             (b, w6) = createMasterChain_begin (engine_options v cfg) w5
                         in (Await_chain e v cfg p b, w6))))
      | Await_chain e v c p b \<Rightarrow>
          (case createMasterChain_resume (chainReverbOk e) (engine_options v c) b w of
             (Inl err, w1) \<Rightarrow> (Rejected err, w1)
           | (Inr ch, w1) \<Rightarrow>
               (case engine_layers v c p ch w1 of
                  (Layers_done, w2) \<Rightarrow> finish_createEngine w2
                | (Layers_await_thunder thunderFilter thunderReverb, w2) \<Rightarrow>
                    (Await_thunder e p thunderFilter thunderReverb, w2)))
      | Await_thunder e p thunderFilter thunderReverb \<Rightarrow>
          (case RainEngine_thunder (thunderReverbOk e) p thunderFilter thunderReverb w of
             (Some err, w1) \<Rightarrow> (Rejected err, w1)
           | (None, w1) \<Rightarrow> finish_createEngine w1)
      | Resolved r \<Rightarrow> (Resolved r, w)
      | Rejected err \<Rightarrow> (Rejected err, w))"

text \<open>
  What happens on the page, in order: a call of \<open>createEngine\<close> is issued, or the task of
  the \<open>i\<close>-th call issued is resumed. The state is the list of tasks, in the order of
  their calls, and the world.
\<close>

datatype action = Call env profile | Resume nat

fun run :: "action list \<Rightarrow> task list \<times> world \<Rightarrow> task list \<times> world" where
  "run [] st = st"
| "run (Call e prof # acts) (ts, w) =
     (let (t, w1) = createEngine_call e prof w in run acts (ts @ [t], w1))"
| "run (Resume i # acts) (ts, w) =
     (if i < length ts
      then (let (t, w1) = resume_task (ts ! i) w in run acts (ts[i := t], w1))
      else run acts (ts, w))"

text \<open>\<open>await createEngine(profile)\<close>: the call is issued and its task resumed until it has
  ended (a call has at most three suspension points), before anything else happens.\<close>

definition call_and_await :: "env \<Rightarrow> profile \<Rightarrow> task list \<times> world \<Rightarrow> task list \<times> world" where
  "call_and_await e prof st =
     run [Call e prof, Resume (length (fst st)), Resume (length (fst st)),
          Resume (length (fst st))] st"

text \<open>How the result of an uninterrupted call reads as an ended task.\<close>

definition ended :: "error + engine_ref \<Rightarrow> task" where
  "ended r = (case r of Inl err \<Rightarrow> Rejected err | Inr ref \<Rightarrow> Resolved (Some ref))"

text \<open>
  A sequence of \<open>createEngine\<close> calls in which each call is awaited before the next is
  issued, so that no two calls overlap; it stops at the first call that rejects.
  Overlapping calls are sequences of actions for \<open>run\<close>.
\<close>

fun createEngine_seq :: "(env \<times> profile) list \<Rightarrow> world \<Rightarrow> (error + unit) \<times> world" where
  "createEngine_seq [] w = (Inr (), w)"
| "createEngine_seq ((e, prof) # rest) w =
     (case createEngine e prof w of
        (Inl err, w1) \<Rightarrow> (Inl err, w1)
      | (Inr r, w1) \<Rightarrow> createEngine_seq rest w1)"


section \<open>The chain as the specification words it\<close>

text \<open>A node as \<open>new\<close> leaves it: not started, never disposed.\<close>

definition fresh_node :: "tone_class \<Rightarrow> node" where
  "fresh_node c = \<lparr> cls = c, running = False, disposeCalls = 0 \<rparr>"

text \<open>
  The specification's construction order, from the tail of the signal path towards its
  head: the limiter first; then the high-pass and the low-pass filter, when requested; then
  the bit-crusher, when requested; then the reverb. These are the nodes that exist when the
  reverb's impulse generation is awaited. The delay, when requested, comes after it.
\<close>

definition stages_before_generate :: "chain_options \<Rightarrow> tone_class list" where
  "stages_before_generate options =
     [Limiter]
     @ (if truthy_num (oHighPass options) then [Filter highpass] else [])
     @ (if truthy_num (oLowPass options) then [Filter lowpass] else [])
     @ (if truthy_num (oBitCrush options) then [BitCrusher] else [])
     @ [Reverb]"

definition construction_order :: "chain_options \<Rightarrow> tone_class list" where
  "construction_order options =
     stages_before_generate options
     @ (if oDelay options = None then [] else [PingPongDelay])"

text \<open>
  The specification's topology for \<open>k\<close> nodes created from index \<open>n\<close> on: the first node
  feeds the destination and every later node feeds the node created just before it.
\<close>

definition chain_wiring :: "nat \<Rightarrow> nat \<Rightarrow> (nat \<times> target) list" where
  "chain_wiring n k = (n, Destination) # map (\<lambda>i. (n + Suc i, Node (n + i))) [0..<k - 1]"

section \<open>Notions used to state and prove the properties\<close>

text \<open>An environment in which every asynchronous step resolves.\<close>

definition ok_env :: env where
  "ok_env = \<lparr> toneStartOk = True, chainReverbOk = True, thunderReverbOk = True \<rparr>"

text \<open>A profile whose type is not in the registry.\<close>

definition not_a_real_type :: profile where
  "not_a_real_type = \<lparr> pid = ''x'', pname = ''X'',
     pconfig = no_config \<lparr> ctype := ''not_a_real_type'' \<rparr> \<rparr>"

text \<open>
  The accounting the specification asks of \<open>n\<close> successful \<open>createEngine\<close> calls in a row:
  engine 0 is installed; from then on, each call first disposes the engine installed by the
  call before it and then installs its own.
\<close>

fun expected_calls :: "nat \<Rightarrow> event list" where
  "expected_calls 0 = []"
| "expected_calls (Suc 0) = [Installed 0]"
| "expected_calls (Suc (Suc n)) = expected_calls (Suc n) @ [DisposeCalled n, Installed (Suc n)]"

text \<open>
  \<open>grows p w w'\<close>: from \<open>w\<close> to \<open>w'\<close> nothing happened to the session variables and to the
  engines except that engine \<open>p\<close> had components and loops pushed to its lists. This is
  what every step of a \<open>start()\<close> does.
\<close>

definition grows :: "nat \<Rightarrow> world \<Rightarrow> world \<Rightarrow> bool" where
  "grows p w w' \<longleftrightarrow>
     currentEngine w' = currentEngine w \<and> calls w' = calls w
     \<and> audioInitialized w' = audioInitialized w
     \<and> transportStarted w' = transportStarted w
     \<and> transportPosition w' = transportPosition w
     \<and> (\<exists>cs ls. programs w' = (programs w)
           [p := (programs w ! p) \<lparr> components := components (programs w ! p) @ cs,
                                    loops := loops (programs w ! p) @ ls \<rparr>])"


section \<open>Phase coincidence of the prime-interval loops\<close>

lemma phasing_loops_SCIENCE_FOCUS:
  "phasing_loops (pconfig SCIENCE_FOCUS) =
     [\<lparr> loopInterval = Seconds 17, startTime = 0 \<rparr>,
      \<lparr> loopInterval = Seconds 19, startTime = 2 \<rparr>,
      \<lparr> loopInterval = Seconds 23, startTime = 4 \<rparr>,
      \<lparr> loopInterval = Seconds 29, startTime = 6 \<rparr>,
      \<lparr> loopInterval = Seconds 31, startTime = 8 \<rparr>]"
  by (simp add: phasing_loops_def primeIntervals_of_def SCIENCE_FOCUS_def no_config_def)

lemma trigger_time_fires_at: "trigger_time l k = Some t \<Longrightarrow> fires_at l t"
  by (auto simp: fires_at_def split: interval.splits)

lemma phasing_no_coincidence_below_119:
  "\<forall>t \<in> set [0..<119]. \<forall>i \<in> set [0..<5]. \<forall>j \<in> set [0..<5]. i \<noteq> j \<longrightarrow>
     \<not> (fires_at (phasing_loops (pconfig SCIENCE_FOCUS) ! i) t
        \<and> fires_at (phasing_loops (pconfig SCIENCE_FOCUS) ! j) t)"
  by code_simp

text \<open>
  C3, as stated, fails: with periods 17, 19, 23, 29, 31 and start offsets 0, 2, 4, 6, 8 the
  loop of period 17 (offset 0) and the loop of period 23 (offset 4) are both scheduled at
  119 s (\<open>0 + 7 * 17 = 4 + 5 * 23 = 119\<close>), well before 323 s.
\<close>

theorem phasing_coincidence_before_323:
  "trigger_time (phasing_loops (pconfig SCIENCE_FOCUS) ! 0) 7 = Some 119
   \<and> trigger_time (phasing_loops (pconfig SCIENCE_FOCUS) ! 2) 5 = Some 119
   \<and> (0::nat) \<noteq> 2 \<and> (119::nat) < 323"
  by (simp add: phasing_loops_SCIENCE_FOCUS)

text \<open>
  C3, amended: for the five phasing loops of the Science Focus profile (periods 17, 19, 23,
  29, 31 s, start offsets 0, 2, 4, 6, 8 s), no two distinct loops have an equal scheduled
  trigger time strictly earlier than 119 s; whenever two distinct loops share a trigger
  time \<open>t\<close>, \<open>t\<close> is at least 119.
\<close>

theorem phasing_first_coincidence:
  assumes "i < 5" and "j < 5" and "i \<noteq> j"
    and "trigger_time (phasing_loops (pconfig SCIENCE_FOCUS) ! i) k = Some t"
    and "trigger_time (phasing_loops (pconfig SCIENCE_FOCUS) ! j) m = Some t"
  shows "119 \<le> t"
proof (rule ccontr)
  assume "\<not> 119 \<le> t"
  then have t: "t \<in> set [0..<119]" by simp
  from assms(1,2) have ij: "i \<in> set [0..<5]" "j \<in> set [0..<5]" by simp_all
  have "fires_at (phasing_loops (pconfig SCIENCE_FOCUS) ! i) t"
    using assms(4) by (rule trigger_time_fires_at)
  moreover have "fires_at (phasing_loops (pconfig SCIENCE_FOCUS) ! j) t"
    using assms(5) by (rule trigger_time_fires_at)
  ultimately show False
    using phasing_no_coincidence_below_119 t ij assms(3) by blast
qed

theorem phasing_first_coincidence_witness:
  "trigger_time (phasing_loops (pconfig SCIENCE_FOCUS) ! 0) 7 = Some 119
   \<and> trigger_time (phasing_loops (pconfig SCIENCE_FOCUS) ! 2) 5 = Some 119
   \<and> (119::nat) \<le> 119"
proof -
  have a: "trigger_time (phasing_loops (pconfig SCIENCE_FOCUS) ! 0) 7 = Some 119"
    by (simp add: phasing_loops_SCIENCE_FOCUS)
  have b: "trigger_time (phasing_loops (pconfig SCIENCE_FOCUS) ! 2) 5 = Some 119"
    by (simp add: phasing_loops_SCIENCE_FOCUS)
  have "(119::nat) \<le> 119"
    by (rule phasing_first_coincidence [OF _ _ _ a b]) simp_all
  with a b show ?thesis by simp
qed

section \<open>Uninterrupted runs in one piece\<close>

text \<open>\<open>createMasterChain\<close> and each \<open>start()\<close>, run without interruption, written out as one
  body from entry to return.\<close>

lemma createMasterChain_unfold:
  "createMasterChain generateOk options w =
     (let (limiter, w1) = new_node Limiter False w;
          st0 = ([limiter], limiter, connect limiter Destination w1);
          st1 = (if truthy_num (oHighPass options) then add_stage (Filter highpass) st0 else st0);
          st2 = (if truthy_num (oLowPass options) then add_stage (Filter lowpass) st1 else st1);
          st3 = (if truthy_num (oBitCrush options) then add_stage BitCrusher st2 else st2)
      in case st3 of (comps, outputNode, w3) \<Rightarrow>
        (let (reverbNode, w4) = new_node Reverb False w3;
             w5 = connect reverbNode (Node outputNode) w4
         in if \<not> generateOk then (Inl GraphBuildError, w5)
            else
              (case oDelay options of
                 None \<Rightarrow>
                   (Inr \<lparr> chainComponents = comps @ [reverbNode], chainConnect = reverbNode,
                          chainLimiter = limiter, chainReverb = reverbNode,
                          chainDelay = None \<rparr>, w5)
               | Some d \<Rightarrow>
                   (let (delayNode, w6) = new_node PingPongDelay False w5;
                        w7 = connect delayNode (Node reverbNode) w6
                    in (Inr \<lparr> chainComponents = comps @ [reverbNode, delayNode],
                              chainConnect = delayNode, chainLimiter = limiter,
                              chainReverb = reverbNode, chainDelay = Some delayNode \<rparr>, w7)))))"
  by (simp add: createMasterChain_def createMasterChain_begin_def createMasterChain_resume_def
        Let_def split_def split: option.splits)

lemma GenerativeEngine_start_unfold:
  "GenerativeEngine_start e p w =
     (let c = config (programs w ! p) in
      case createMasterChain (chainReverbOk e)
             (no_options \<lparr> oReverb := reverb c, oDelay := delay c,
                oHighPass := Some 100, oLowPass := Some 2000 \<rparr>) w of
        (Inl err, w1) \<Rightarrow> (Some err, w1)
      | (Inr ch, w1) \<Rightarrow>
          (let w2 = push_components p (chainComponents ch) w1;
               w3 = layer p [(PolySynth, False), (PolySynth, False), (Noise, True)] w2;
               w4 = loop_layer p
                      [\<lparr> loopInterval = interval_or_default (padInterval c), startTime = 0 \<rparr>] w3;
               w5 = loop_layer p
                      [\<lparr> loopInterval = interval_or_default (modularInterval c), startTime = 0 \<rparr>] w4
           in (None, w5)))"
  by (simp add: GenerativeEngine_start_def GenerativeEngine_options_def GenerativeEngine_layers_def Let_def split_def
      split: sum.splits)

lemma BinauralEngine_start_unfold:
  "BinauralEngine_start e p w =
     (let c = config (programs w ! p) in
      case createMasterChain (chainReverbOk e)
             (no_options \<lparr> oReverb := reverb c, oLowPass := Some 800 \<rparr>) w of
        (Inl err, w1) \<Rightarrow> (Some err, w1)
      | (Inr ch, w1) \<Rightarrow>
          (let w2 = push_components p (chainComponents ch) w1;
               w3 = layer p
                      [(Oscillator, True), (Oscillator, True), (Oscillator, True),
                       (Oscillator, True), (Panner, False), (Panner, False), (LFO, True),
                       (Gain, False), (LFO, True), (Noise, True), (Filter lowpass, False)] w2
           in (None, w3)))"
  by (simp add: BinauralEngine_start_def BinauralEngine_options_def BinauralEngine_layers_def Let_def split_def
      split: sum.splits)

lemma NoiseEngine_start_unfold:
  "NoiseEngine_start e p w =
     (let c = config (programs w ! p) in
      case createMasterChain (chainReverbOk e)
             (no_options \<lparr> oReverb := reverb c, oHighPass := highPassFreq c,
                oLowPass := lowPassFreq c \<rparr>) w of
        (Inl err, w1) \<Rightarrow> (Some err, w1)
      | (Inr ch, w1) \<Rightarrow>
          (let w2 = push_components p (chainComponents ch) w1;
               w3 = layer p
                      [(Noise, True), (Noise, True), (Noise, True), (Filter lowpass, False),
                       (Filter lowpass, False), (LFO, True), (AutoPanner, True)] w2
           in (None, w3)))"
  by (simp add: NoiseEngine_start_def NoiseEngine_options_def NoiseEngine_layers_def Let_def split_def
      split: sum.splits)

lemma RainEngine_start_unfold:
  "RainEngine_start e p w =
     (let c = config (programs w ! p) in
      case createMasterChain (chainReverbOk e) (no_options \<lparr> oReverb := reverb c \<rparr>) w of
        (Inl err, w1) \<Rightarrow> (Some err, w1)
      | (Inr ch, w1) \<Rightarrow>
          (let w2 = push_components p (chainComponents ch) w1;
               w3 = layer p
                      [(Noise, True), (Filter lowpass, False), (Noise, True),
                       (Filter lowpass, False), (Filter highpass, False), (LFO, True),
                       (LFO, True)] w2;
               w4 = loop_layer p
                      [\<lparr> loopInterval = Notation ''32n'', startTime = 0 \<rparr>,
                       \<lparr> loopInterval = interval_or_default (dropletFrequency c), startTime = 0 \<rparr>,
                       \<lparr> loopInterval = Notation ''4n'', startTime = 0 \<rparr>] w3;
               w5 = layer p
                      [(NoiseSynth, False), (Filter lowpass, False), (NoiseSynth, False),
                       (Filter lowpass, False), (NoiseSynth, False), (Filter lowpass, False)] w4
           in if enabled (thunderEnabled c)
              then
                (let (thunderFilter, w6) = new_node (Filter lowpass) False w5;
                     (thunderReverb, w7) = new_node Reverb False w6
                 in if \<not> thunderReverbOk e then (Some GraphBuildError, w7)
                    else
                      (let (thunderSynth, w8) = new_node NoiseSynth False w7;
                           w9 = loop_layer p
                                  [\<lparr> loopInterval = Seconds 47, startTime = 30 \<rparr>] w8
                       in (None,
                           push_components p [thunderSynth, thunderReverb, thunderFilter] w9)))
              else (None, w5)))"
  by (simp add: RainEngine_start_def RainEngine_options_def RainEngine_layers_def
        RainEngine_thunder_def Let_def split_def split: sum.splits)

lemma ForestEngine_start_unfold:
  "ForestEngine_start e p w =
     (let c = config (programs w ! p) in
      case createMasterChain (chainReverbOk e)
             (no_options \<lparr> oReverb := reverb c, oHighPass := highPassFreq c,
                oLowPass := lowPassFreq c \<rparr>) w of
        (Inl err, w1) \<Rightarrow> (Some err, w1)
      | (Inr ch, w1) \<Rightarrow>
          (let w2 = push_components p (chainComponents ch) w1;
               w3 = layer p [(Noise, True), (Filter lowpass, False), (LFO, True), (LFO, True)] w2;
               w4 = layer p [(Noise, True), (Filter highpass, False), (LFO, True)] w3;
               w5 = loop_layer p
                      [\<lparr> loopInterval = Notation ''2n'', startTime = 2 \<rparr>,
                       \<lparr> loopInterval = Seconds 4, startTime = 5 \<rparr>] w4;
               w6 = layer p [(FMSynth, False), (FMSynth, False)] w5;
               w7 = (if enabled (insectsEnabled c)
                     then layer p [(Oscillator, True), (Tremolo, True), (Oscillator, True),
                                   (Tremolo, True)] w6
                     else w6);
               w8 = (if enabled (streamEnabled c)
                     then layer p [(Noise, True), (Filter bandpass, False), (LFO, True)] w7
                     else w7)
           in (None, w8)))"
  by (simp add: ForestEngine_start_def ForestEngine_options_def ForestEngine_layers_def Let_def split_def
      split: sum.splits)

lemma LofiEngine_start_unfold:
  "LofiEngine_start e p w =
     (let c = config (programs w ! p) in
      case createMasterChain (chainReverbOk e)
             (no_options \<lparr> oReverb := reverb c, oDelay := delay c,
                oBitCrush := bitCrush c, oLowPass := Some 3500 \<rparr>) w of
        (Inl err, w1) \<Rightarrow> (Some err, w1)
      | (Inr ch, w1) \<Rightarrow>
          (let w2 = push_components p (chainComponents ch) w1;
               w3 = layer p [(Filter lowpass, False), (LFO, True)] w2;
               w4 = layer p [(PolySynth, False), (MonoSynth, False)] w3;
               w5 = loop_layer p [\<lparr> loopInterval = Notation ''16n'', startTime = 0 \<rparr>] w4;
               w6 = layer p [(Noise, True), (Filter highpass, False), (NoiseSynth, False)] w5;
               w7 = loop_layer p
                      [\<lparr> loopInterval = Notation ''1m'', startTime = 0 \<rparr>,
                       \<lparr> loopInterval = Notation ''8n'', startTime = 0 \<rparr>] w6
           in (None, w7)))"
  by (simp add: LofiEngine_start_def LofiEngine_options_def LofiEngine_layers_def Let_def split_def
      split: sum.splits)

lemma MinimalEngine_start_unfold:
  "MinimalEngine_start e p w =
     (let c = config (programs w ! p) in
      case createMasterChain (chainReverbOk e)
             (no_options \<lparr> oReverb := reverb c, oDelay := delay c \<rparr>) w of
        (Inl err, w1) \<Rightarrow> (Some err, w1)
      | (Inr ch, w1) \<Rightarrow>
          (let w2 = push_components p (chainComponents ch) w1;
               w3 = layer p [(PolySynth, False), (PolySynth, False), (Synth, False)] w2;
               (breathFilter, w4) = new_node (Filter lowpass) False w3;
               w5 = connect breathFilter (Node (chainLimiter ch)) w4;
               (breathLFO, w6) = new_node LFO True w5;
               w7 = (case chainDelay ch of
                       Some d \<Rightarrow> connect d (Node breathFilter) (disconnect d w6)
                     | None \<Rightarrow> w6);
               w8 = push_components p [breathFilter, breathLFO] w7;
               w9 = loop_layer p
                      [\<lparr> loopInterval = interval_or_default (interval c), startTime = 0 \<rparr>,
                       \<lparr> loopInterval = Seconds 7, startTime = 3 \<rparr>] w8
           in (None, w9)))"
  by (simp add: MinimalEngine_start_def MinimalEngine_options_def MinimalEngine_layers_def Let_def split_def
      split: sum.splits)

lemma ScientificFocusEngine_start_unfold:
  "ScientificFocusEngine_start e p w =
     (let c = config (programs w ! p) in
      case createMasterChain (chainReverbOk e)
             (no_options \<lparr> oReverb := reverb c, oDelay := delay c,
                oHighPass := Some 80, oLowPass := Some 2500 \<rparr>) w of
        (Inl err, w1) \<Rightarrow> (Some err, w1)
      | (Inr ch, w1) \<Rightarrow>
          (let w2 = push_components p (chainComponents ch) w1;
               w3 = layer p [(Noise, True)] w2;
               w4 = (if enabled (gammaEnabled c)
                     then layer p [(Oscillator, True), (LFO, True), (Gain, False)] w3
                     else w3);
               w5 = phasing_layers p (phasing_loops c) w4;
               w6 = (if enabled (textureEnabled c)
                     then loop_layer p [\<lparr> loopInterval = Seconds 37, startTime = 5 \<rparr>]
                            (layer p [(FMSynth, False)] w5)
                     else w5);
               (breathingLFO, w7) = new_node LFO True w6;
               (breathingFilter, w8) = new_node (Filter lowpass) False w7;
               w9 = connect breathingFilter (Node (chainLimiter ch)) w8;
               w10 = connect (chainReverb ch) (Node breathingFilter)
                       (disconnect (chainReverb ch) w9)
           in (None, push_components p [breathingLFO, breathingFilter] w10)))"
  by (simp add: ScientificFocusEngine_start_def ScientificFocusEngine_options_def ScientificFocusEngine_layers_def Let_def split_def
      split: sum.splits)

section \<open>The master chain\<close>

text \<open>
  C9: for every options record \<open>createMasterChain\<close> builds the chain in the fixed order
  limiter, high-pass, low-pass, bit-crusher, reverb, delay (the optional ones when
  requested, that is, truthy). The limiter is the first node created and feeds the
  destination; every later node feeds the one created just before it, so the filters sit
  before the limiter on the signal path, the bit-crusher before the filters, the reverb
  before those, and the delay feeds the reverb, not the limiter. A handle is returned
  exactly when the reverb's impulse generation has resolved. The handle's \<open>components\<close> are
  the new nodes in creation order.
\<close>

theorem createMasterChain_order:
  "isl (fst (createMasterChain g options w)) = (\<not> g)
   \<and> (\<exists>ch w'. createMasterChain True options w = (Inr ch, w')
     \<and> nodes w' = nodes w @ map fresh_node (construction_order options)
     \<and> chainComponents ch =
         map (\<lambda>i. length (nodes w) + i) [0..<length (construction_order options)]
     \<and> edges w' = edges w
         @ chain_wiring (length (nodes w)) (length (construction_order options))
     \<and> chainLimiter ch = length (nodes w)
     \<and> chainReverb ch = length (nodes w) + length (stages_before_generate options) - 1
     \<and> chainDelay ch = (if oDelay options = None then None
                        else Some (length (nodes w) + length (stages_before_generate options)))
     \<and> chainConnect ch = length (nodes w) + length (construction_order options) - 1)"
  by (cases "truthy_num (oHighPass options)"; cases "truthy_num (oLowPass options)";
      cases "truthy_num (oBitCrush options)"; cases "oDelay options"; cases g)
     (simp_all add: createMasterChain_unfold add_stage_def new_node_def connect_def
        construction_order_def stages_before_generate_def chain_wiring_def fresh_node_def
        upt_rec)

text \<open>
  C2, as stated, fails: when impulse generation rejects, the nodes built so far are still in
  the store with no \<open>dispose()\<close> call on any of them. Here the options ask for both filters.
\<close>

theorem createMasterChain_failure_leaves_nodes:
  "fst (createMasterChain False (no_options \<lparr> oHighPass := Some 100, oLowPass := Some 2000 \<rparr>)
          initial_world) = Inl GraphBuildError
   \<and> nodes (snd (createMasterChain False
              (no_options \<lparr> oHighPass := Some 100, oLowPass := Some 2000 \<rparr>) initial_world))
      = [\<lparr> cls = Limiter, running = False, disposeCalls = 0 \<rparr>,
         \<lparr> cls = Filter highpass, running = False, disposeCalls = 0 \<rparr>,
         \<lparr> cls = Filter lowpass, running = False, disposeCalls = 0 \<rparr>,
         \<lparr> cls = Reverb, running = False, disposeCalls = 0 \<rparr>]"
  by (simp add: createMasterChain_unfold add_stage_def new_node_def connect_def no_options_def
        initial_world_def truthy_num_def)

text \<open>
  C2, amended: if impulse generation fails inside \<open>createMasterChain\<close>, then for every
  options record the build returns no handle and the error propagates; the Builder releases
  nothing: the limiter, the requested filters and bit-crusher and the reverb node are all
  left in the store as created, never disposed and still connected, and no engine's lists
  are touched.
\<close>

theorem createMasterChain_failure_releases_nothing:
  "fst (createMasterChain False options w) = Inl GraphBuildError
   \<and> nodes (snd (createMasterChain False options w))
       = nodes w @ map fresh_node (stages_before_generate options)
   \<and> edges (snd (createMasterChain False options w))
       = edges w @ chain_wiring (length (nodes w)) (length (stages_before_generate options))
   \<and> programs (snd (createMasterChain False options w)) = programs w"
  by (cases "truthy_num (oHighPass options)"; cases "truthy_num (oLowPass options)";
      cases "truthy_num (oBitCrush options)")
     (simp_all add: createMasterChain_unfold add_stage_def new_node_def connect_def
        stages_before_generate_def chain_wiring_def fresh_node_def upt_rec)

section \<open>What a start() can change\<close>

lemma grows_refl: "grows p w w"
proof -
  have "programs w = (programs w)
           [p := (programs w ! p) \<lparr> components := components (programs w ! p) @ [],
                                    loops := loops (programs w ! p) @ [] \<rparr>]"
    by simp
  then show ?thesis unfolding grows_def by blast
qed

lemma grows_trans:
  assumes "grows p w w1" and "grows p w1 w2"
  shows "grows p w w2"
proof -
  from assms(1) obtain cs ls where 1: "programs w1 = (programs w)
           [p := (programs w ! p) \<lparr> components := components (programs w ! p) @ cs,
                                    loops := loops (programs w ! p) @ ls \<rparr>]"
    unfolding grows_def by blast
  from assms(2) obtain cs' ls' where 2: "programs w2 = (programs w1)
           [p := (programs w1 ! p) \<lparr> components := components (programs w1 ! p) @ cs',
                                    loops := loops (programs w1 ! p) @ ls' \<rparr>]"
    unfolding grows_def by blast
  have "programs w2 = (programs w)
           [p := (programs w ! p) \<lparr> components := components (programs w ! p) @ (cs @ cs'),
                                    loops := loops (programs w ! p) @ (ls @ ls') \<rparr>]"
  proof (cases "p < length (programs w)")
    case True
    then show ?thesis using 1 2 by simp
  next
    case False
    then show ?thesis using 1 2 by (simp add: list_update_beyond)
  qed
  then have "\<exists>cs ls. programs w2 = (programs w)
           [p := (programs w ! p) \<lparr> components := components (programs w ! p) @ cs,
                                    loops := loops (programs w ! p) @ ls \<rparr>]"
    by blast
  with assms show ?thesis unfolding grows_def by simp
qed

lemma grows_same_programs:
  assumes "currentEngine w' = currentEngine w" "calls w' = calls w"
    "audioInitialized w' = audioInitialized w" "transportStarted w' = transportStarted w"
    "transportPosition w' = transportPosition w" "programs w' = programs w"
  shows "grows p w w'"
proof -
  have "programs w' = (programs w)
           [p := (programs w ! p) \<lparr> components := components (programs w ! p) @ [],
                                    loops := loops (programs w ! p) @ [] \<rparr>]"
    using assms(6) by simp
  then show ?thesis using assms unfolding grows_def by blast
qed

lemma grows_new_node: "grows p w (snd (new_node c r w))"
  by (rule grows_same_programs) (simp_all add: new_node_def)

lemma grows_connect: "grows p w (connect n t w)"
  by (rule grows_same_programs) (simp_all add: connect_def)

lemma grows_disconnect: "grows p w (disconnect n w)"
  by (rule grows_same_programs) (simp_all add: disconnect_def)

lemma grows_start_loop: "grows p w (snd (start_loop l w))"
  by (rule grows_same_programs) (simp_all add: start_loop_def)

lemma growsI:
  assumes "currentEngine w' = currentEngine w" "calls w' = calls w"
    "audioInitialized w' = audioInitialized w" "transportStarted w' = transportStarted w"
    "transportPosition w' = transportPosition w"
    "programs w' = (programs w)
           [p := (programs w ! p) \<lparr> components := components (programs w ! p) @ cs,
                                    loops := loops (programs w ! p) @ ls \<rparr>]"
  shows "grows p w w'"
  unfolding grows_def using assms by blast

lemma grows_push_components: "grows p w (push_components p ns w)"
  by (rule growsI [where cs = ns and ls = "[]"]) (simp_all add: push_components_def)

lemma grows_push_loops: "grows p w (push_loops p ns w)"
  by (rule growsI [where cs = "[]" and ls = ns]) (simp_all add: push_loops_def)

lemma grows_new_nodes: "grows p w (snd (new_nodes specs w))"
proof (induction specs arbitrary: w)
  case Nil
  show ?case by (simp add: grows_refl)
next
  case (Cons s specs)
  obtain c r where s: "s = (c, r)" by (cases s)
  have "grows p w (snd (new_node c r w))" by (rule grows_new_node)
  moreover have "grows p (snd (new_node c r w)) (snd (new_nodes specs (snd (new_node c r w))))"
    by (rule Cons.IH)
  ultimately have "grows p w (snd (new_nodes specs (snd (new_node c r w))))"
    by (rule grows_trans)
  then show ?case by (simp add: s split_def Let_def)
qed

lemma grows_start_loops: "grows p w (snd (start_loops ls w))"
proof (induction ls arbitrary: w)
  case Nil
  show ?case by (simp add: grows_refl)
next
  case (Cons l ls)
  have "grows p w (snd (start_loop l w))" by (rule grows_start_loop)
  moreover have "grows p (snd (start_loop l w)) (snd (start_loops ls (snd (start_loop l w))))"
    by (rule Cons.IH)
  ultimately have "grows p w (snd (start_loops ls (snd (start_loop l w))))"
    by (rule grows_trans)
  then show ?case by (simp add: split_def Let_def)
qed

lemma grows_layer: "grows p w (layer p specs w)"
  unfolding layer_def split_def Let_def
  by (rule grows_trans [OF grows_new_nodes grows_push_components])

lemma grows_loop_layer: "grows p w (loop_layer p ls w)"
  unfolding loop_layer_def split_def Let_def
  by (rule grows_trans [OF grows_start_loops grows_push_loops])

lemma grows_phasing_layers: "grows p w (phasing_layers p ls w)"
proof (induction ls arbitrary: w)
  case Nil
  show ?case by (simp add: grows_refl)
next
  case (Cons l ls)
  have "grows p w (loop_layer p [l] (layer p [(PolySynth, False)] w))"
    by (rule grows_trans [OF grows_layer grows_loop_layer])
  then show ?case using Cons.IH grows_trans by simp
qed

lemma grows_add_stage: "grows p (snd (snd st)) (snd (snd (add_stage c st)))"
  unfolding add_stage_def split_def Let_def
  by (simp add: grows_trans [OF grows_new_node grows_connect])

lemma grows_createMasterChain: "grows p w (snd (createMasterChain g options w))"
  by (rule grows_same_programs)
     (simp_all add: createMasterChain_unfold add_stage_def new_node_def connect_def Let_def
        split: option.splits)

lemmas grows_step =
  grows_trans [OF _ grows_new_node] grows_trans [OF _ grows_connect]
  grows_trans [OF _ grows_disconnect] grows_trans [OF _ grows_push_components]
  grows_trans [OF _ grows_layer] grows_trans [OF _ grows_loop_layer]
  grows_trans [OF _ grows_phasing_layers]

lemma start_result_of_chain:
  "createMasterChain g options w = (r, w1) \<Longrightarrow> grows p w w1"
  using grows_createMasterChain [of p w g options] by simp

lemma grows_GenerativeEngine_start: "grows p w (snd (GenerativeEngine_start e p w))"
  unfolding GenerativeEngine_start_unfold Let_def
  by (auto split: prod.splits sum.splits option.splits
       intro!: grows_step grows_createMasterChain dest: start_result_of_chain [where p = p])

lemma grows_BinauralEngine_start: "grows p w (snd (BinauralEngine_start e p w))"
  unfolding BinauralEngine_start_unfold Let_def
  by (auto split: prod.splits sum.splits option.splits
       intro!: grows_step grows_createMasterChain dest: start_result_of_chain [where p = p])

lemma grows_NoiseEngine_start: "grows p w (snd (NoiseEngine_start e p w))"
  unfolding NoiseEngine_start_unfold Let_def
  by (auto split: prod.splits sum.splits option.splits
       intro!: grows_step grows_createMasterChain dest: start_result_of_chain [where p = p])

lemma grows_RainEngine_start: "grows p w (snd (RainEngine_start e p w))"
  unfolding RainEngine_start_unfold Let_def split_def
  by (auto split: prod.splits sum.splits option.splits
       intro!: grows_step grows_createMasterChain dest: start_result_of_chain [where p = p])

lemma grows_ForestEngine_start: "grows p w (snd (ForestEngine_start e p w))"
  unfolding ForestEngine_start_unfold Let_def
  by (auto split: prod.splits sum.splits option.splits
       intro!: grows_step grows_createMasterChain dest: start_result_of_chain [where p = p])

lemma grows_LofiEngine_start: "grows p w (snd (LofiEngine_start e p w))"
  unfolding LofiEngine_start_unfold Let_def
  by (auto split: prod.splits sum.splits option.splits
       intro!: grows_step grows_createMasterChain dest: start_result_of_chain [where p = p])

lemma grows_MinimalEngine_start: "grows p w (snd (MinimalEngine_start e p w))"
  unfolding MinimalEngine_start_unfold Let_def split_def
  by (auto split: prod.splits sum.splits option.splits
       intro!: grows_step grows_createMasterChain dest: start_result_of_chain [where p = p])

lemma grows_ScientificFocusEngine_start:
  "grows p w (snd (ScientificFocusEngine_start e p w))"
  unfolding ScientificFocusEngine_start_unfold Let_def split_def
  by (auto split: prod.splits sum.splits option.splits
       intro!: grows_step grows_createMasterChain dest: start_result_of_chain [where p = p])

lemma grows_start: "grows p w (snd (start e p w))"
  unfolding start_def
  by (simp add: grows_GenerativeEngine_start grows_BinauralEngine_start
        grows_NoiseEngine_start grows_RainEngine_start grows_ForestEngine_start
        grows_LofiEngine_start grows_MinimalEngine_start grows_ScientificFocusEngine_start
        split: variant.splits)

lemma createMasterChain_error:
  "fst (createMasterChain g options w) = Inl err \<Longrightarrow> err = GraphBuildError"
  by (auto simp: createMasterChain_unfold Let_def split_def split: if_splits option.splits)

lemma start_error: "fst (start e p w) = Some err \<Longrightarrow> err = GraphBuildError"
  unfolding start_def GenerativeEngine_start_unfold BinauralEngine_start_unfold NoiseEngine_start_unfold
    RainEngine_start_unfold ForestEngine_start_unfold LofiEngine_start_unfold MinimalEngine_start_unfold
    ScientificFocusEngine_start_unfold Let_def split_def
  by (auto split: variant.splits prod.splits sum.splits if_splits dest: createMasterChain_error)

lemma createMasterChain_no_error: "fst (createMasterChain True options w) \<noteq> Inl err"
  by (simp add: createMasterChain_unfold add_stage_def new_node_def connect_def Let_def split_def
      split: option.splits)

lemma engine_start_resolves:
  assumes "chainReverbOk e" and "thunderReverbOk e"
  shows "fst (GenerativeEngine_start e p w) = None"
    and "fst (ScientificFocusEngine_start e p w) = None"
    and "fst (BinauralEngine_start e p w) = None"
    and "fst (NoiseEngine_start e p w) = None"
    and "fst (RainEngine_start e p w) = None"
    and "fst (ForestEngine_start e p w) = None"
    and "fst (LofiEngine_start e p w) = None"
    and "fst (MinimalEngine_start e p w) = None"
  using assms
  unfolding GenerativeEngine_start_unfold BinauralEngine_start_unfold NoiseEngine_start_unfold
    RainEngine_start_unfold ForestEngine_start_unfold LofiEngine_start_unfold MinimalEngine_start_unfold
    ScientificFocusEngine_start_unfold Let_def split_def
  by (auto split: prod.splits sum.splits simp: createMasterChain_no_error)

lemma start_resolves:
  assumes "chainReverbOk e" and "thunderReverbOk e"
  shows "fst (start e p w) = None"
  unfolding start_def
  by (simp add: engine_start_resolves [OF assms] split: variant.splits)

section \<open>What stop() and dispose() change\<close>

lemma fold_loop_stop_cancel:
  "fold loop_stop_cancel ls w = w \<lparr> transportEvents := fold removeAll ls (transportEvents w) \<rparr>"
  by (induction ls arbitrary: w) (simp_all add: loop_stop_cancel_def)

lemma comp_stop_shape:
  "\<exists>ns. comp_stop n w = w \<lparr> nodes := ns \<rparr>
        \<and> map disposeCalls ns = map disposeCalls (nodes w) \<and> map cls ns = map cls (nodes w)"
proof (cases "n < length (nodes w) \<and> has_stop (cls (nodes w ! n))")
  case True
  then have "comp_stop n w = w \<lparr> nodes := (nodes w)[n := (nodes w ! n) \<lparr> running := False \<rparr>] \<rparr>"
    by (simp add: comp_stop_def)
  moreover have "map disposeCalls ((nodes w)[n := (nodes w ! n) \<lparr> running := False \<rparr>])
                 = map disposeCalls (nodes w)"
    using True by (intro nth_equalityI) (auto simp: nth_list_update)
  moreover have "map cls ((nodes w)[n := (nodes w ! n) \<lparr> running := False \<rparr>])
                 = map cls (nodes w)"
    using True by (intro nth_equalityI) (auto simp: nth_list_update)
  ultimately show ?thesis by blast
next
  case False
  then have "comp_stop n w = w" unfolding comp_stop_def by (simp only: if_False)
  then show ?thesis by (intro exI [of _ "nodes w"]) simp
qed

lemma fold_comp_stop_shape:
  "\<exists>ns. fold (\<lambda>comp w'. comp_stop comp (comp_releaseAll comp w')) cs w = w \<lparr> nodes := ns \<rparr>
        \<and> map disposeCalls ns = map disposeCalls (nodes w) \<and> map cls ns = map cls (nodes w)"
proof (induction cs arbitrary: w)
  case Nil
  show ?case by (intro exI [of _ "nodes w"]) simp
next
  case (Cons c cs)
  obtain ns1 where 1: "comp_stop c w = w \<lparr> nodes := ns1 \<rparr>"
      "map disposeCalls ns1 = map disposeCalls (nodes w)" "map cls ns1 = map cls (nodes w)"
    using comp_stop_shape by blast
  obtain ns2 where 2:
      "fold (\<lambda>comp w'. comp_stop comp (comp_releaseAll comp w')) cs (w \<lparr> nodes := ns1 \<rparr>)
         = w \<lparr> nodes := ns1 \<rparr> \<lparr> nodes := ns2 \<rparr>"
      "map disposeCalls ns2 = map disposeCalls (nodes (w \<lparr> nodes := ns1 \<rparr>))"
      "map cls ns2 = map cls (nodes (w \<lparr> nodes := ns1 \<rparr>))"
    using Cons.IH by blast
  have "fold (\<lambda>comp w'. comp_stop comp (comp_releaseAll comp w')) (c # cs) w = w \<lparr> nodes := ns2 \<rparr>"
    using 1(1) 2(1) by (simp add: comp_releaseAll_def)
  moreover have "map disposeCalls ns2 = map disposeCalls (nodes w)" using 1(2) 2(2) by simp
  moreover have "map cls ns2 = map cls (nodes w)" using 1(3) 2(3) by simp
  ultimately show ?case by blast
qed

lemma stop_shape:
  "\<exists>ns. stop p w = w \<lparr> transportEvents := fold removeAll (loops (programs w ! p)) (transportEvents w),
                        nodes := ns \<rparr>
        \<and> map disposeCalls ns = map disposeCalls (nodes w) \<and> map cls ns = map cls (nodes w)"
proof -
  let ?w1 = "w \<lparr> transportEvents := fold removeAll (loops (programs w ! p)) (transportEvents w) \<rparr>"
  obtain ns where ns:
      "fold (\<lambda>comp w'. comp_stop comp (comp_releaseAll comp w')) (components (programs w ! p)) ?w1
         = ?w1 \<lparr> nodes := ns \<rparr>"
      "map disposeCalls ns = map disposeCalls (nodes ?w1)" "map cls ns = map cls (nodes ?w1)"
    using fold_comp_stop_shape by blast
  have "stop p w = ?w1 \<lparr> nodes := ns \<rparr>"
    using ns(1) by (simp add: stop_def fold_loop_stop_cancel)
  with ns(2,3) show ?thesis by auto
qed

lemma comp_dispose_shape: "\<exists>ns es. comp_dispose n w = w \<lparr> nodes := ns, edges := es \<rparr>"
proof (cases "n < length (nodes w)")
  case True
  then show ?thesis unfolding comp_dispose_def by auto
next
  case False
  then have "comp_dispose n w = w" by (simp add: comp_dispose_def)
  then show ?thesis by (intro exI [of _ "nodes w"] exI [of _ "edges w"]) simp
qed

lemma fold_comp_dispose_shape:
  "\<exists>ns es. fold comp_dispose cs w = w \<lparr> nodes := ns, edges := es \<rparr>"
proof (induction cs arbitrary: w)
  case Nil
  show ?case by (intro exI [of _ "nodes w"] exI [of _ "edges w"]) simp
next
  case (Cons c cs)
  obtain ns1 es1 where 1: "comp_dispose c w = w \<lparr> nodes := ns1, edges := es1 \<rparr>"
    using comp_dispose_shape by blast
  obtain ns2 es2 where 2:
      "fold comp_dispose cs (w \<lparr> nodes := ns1, edges := es1 \<rparr>)
         = w \<lparr> nodes := ns1, edges := es1 \<rparr> \<lparr> nodes := ns2, edges := es2 \<rparr>"
    using Cons.IH by blast
  have "fold comp_dispose (c # cs) w = w \<lparr> nodes := ns2, edges := es2 \<rparr>"
    using 1 2 by simp
  then show ?case by blast
qed

lemma dispose_shape:
  "\<exists>ns es. dispose p w =
     w \<lparr> calls := calls w @ [DisposeCalled p],
         transportEvents := fold removeAll (loops (programs w ! p)) (transportEvents w),
         nodes := ns, edges := es,
         programs := (programs w)[p := (programs w ! p) \<lparr> loops := [], components := [] \<rparr>] \<rparr>"
proof -
  let ?w0 = "w \<lparr> calls := calls w @ [DisposeCalled p] \<rparr>"
  obtain ns1 where 1:
    "stop p ?w0 = ?w0 \<lparr> transportEvents := fold removeAll (loops (programs w ! p)) (transportEvents w),
                        nodes := ns1 \<rparr>"
    using stop_shape [of p ?w0] by auto
  let ?w1 = "stop p ?w0"
  let ?w2 = "?w1 \<lparr> programs := (programs ?w1)[p := (programs ?w1 ! p) \<lparr> loops := [] \<rparr>] \<rparr>"
  obtain ns2 es2 where 2:
    "fold comp_dispose (components (programs ?w2 ! p)) ?w2 = ?w2 \<lparr> nodes := ns2, edges := es2 \<rparr>"
    using fold_comp_dispose_shape by blast
  have "dispose p w =
     w \<lparr> calls := calls w @ [DisposeCalled p],
         transportEvents := fold removeAll (loops (programs w ! p)) (transportEvents w),
         nodes := ns2, edges := es2,
         programs := (programs w)[p := (programs w ! p) \<lparr> loops := [], components := [] \<rparr>] \<rparr>"
  proof (cases "p < length (programs w)")
    case True
    show ?thesis
      unfolding dispose_def Let_def 2 unfolding 1 using True by simp
  next
    case False
    show ?thesis
      unfolding dispose_def Let_def 2 unfolding 1 using False by (simp add: list_update_beyond)
  qed
  then show ?thesis by blast
qed


section \<open>The blocks of createEngine\<close>

lemma dispose_current_None: "currentEngine w = None \<Longrightarrow> dispose_current w = w"
  by (simp add: dispose_current_def)

lemma dispose_current_Program:
  assumes "currentEngine w = Some (Program old)"
  shows "\<exists>ns es. dispose_current w =
     w \<lparr> calls := calls w @ [DisposeCalled old],
         transportEvents := fold removeAll (loops (programs w ! old)) (transportEvents w),
         nodes := ns, edges := es,
         programs := (programs w)[old := (programs w ! old) \<lparr> loops := [], components := [] \<rparr>],
         currentEngine := None \<rparr>"
proof -
  obtain ns es where "dispose old w =
     w \<lparr> calls := calls w @ [DisposeCalled old],
         transportEvents := fold removeAll (loops (programs w ! old)) (transportEvents w),
         nodes := ns, edges := es,
         programs := (programs w)[old := (programs w ! old) \<lparr> loops := [], components := [] \<rparr>] \<rparr>"
    using dispose_shape by blast
  then show ?thesis using assms by (auto simp: dispose_current_def)
qed

lemma dispose_current_fields:
  assumes "\<forall>c. currentEngine w \<noteq> Some (ConfigObject c)"
  shows "currentEngine (dispose_current w) = None"
    and "audioInitialized (dispose_current w) = audioInitialized w"
    and "transportStarted (dispose_current w) = transportStarted w"
    and "transportPosition (dispose_current w) = transportPosition w"
    and "length (programs (dispose_current w)) = length (programs w)"
    and "calls (dispose_current w) =
           calls w @ (case currentEngine w of Some (Program old) \<Rightarrow> [DisposeCalled old] | _ \<Rightarrow> [])"
    and "transportEvents w = [] \<Longrightarrow> transportEvents (dispose_current w) = []"
proof -
  consider "currentEngine w = None" | old where "currentEngine w = Some (Program old)"
    using assms by (cases "currentEngine w") (auto intro: engine_ref.exhaust)
  then have "currentEngine (dispose_current w) = None
      \<and> audioInitialized (dispose_current w) = audioInitialized w
      \<and> transportStarted (dispose_current w) = transportStarted w
      \<and> transportPosition (dispose_current w) = transportPosition w
      \<and> length (programs (dispose_current w)) = length (programs w)
      \<and> calls (dispose_current w) =
           calls w @ (case currentEngine w of Some (Program old) \<Rightarrow> [DisposeCalled old] | _ \<Rightarrow> [])
      \<and> (transportEvents w = [] \<longrightarrow> transportEvents (dispose_current w) = [])"
  proof cases
    case 1
    then show ?thesis by (simp add: dispose_current_None)
  next
    case 2
    from dispose_current_Program [OF 2] obtain ns es where "dispose_current w =
       w \<lparr> calls := calls w @ [DisposeCalled old],
         transportEvents := fold removeAll (loops (programs w ! old)) (transportEvents w),
         nodes := ns, edges := es,
         programs := (programs w)[old := (programs w ! old) \<lparr> loops := [], components := [] \<rparr>],
         currentEngine := None \<rparr>" by blast
    moreover have "fold removeAll xs [] = ([]::nat list)" for xs
      by (induction xs) simp_all
    ultimately show ?thesis using 2 by simp
  qed
  then show "currentEngine (dispose_current w) = None"
    and "audioInitialized (dispose_current w) = audioInitialized w"
    and "transportStarted (dispose_current w) = transportStarted w"
    and "transportPosition (dispose_current w) = transportPosition w"
    and "length (programs (dispose_current w)) = length (programs w)"
    and "calls (dispose_current w) =
           calls w @ (case currentEngine w of Some (Program old) \<Rightarrow> [DisposeCalled old] | _ \<Rightarrow> [])"
    and "transportEvents w = [] \<Longrightarrow> transportEvents (dispose_current w) = []"
    by simp_all
qed

lemma dispose_current_programs:
  assumes "\<forall>c. currentEngine w \<noteq> Some (ConfigObject c)" and "q < length (programs w)"
  shows "programs (dispose_current w) ! q =
           (if currentEngine w = Some (Program q)
            then (programs w ! q) \<lparr> loops := [], components := [] \<rparr> else programs w ! q)"
proof -
  consider "currentEngine w = None" | old where "currentEngine w = Some (Program old)"
    using assms(1) by (cases "currentEngine w") (auto intro: engine_ref.exhaust)
  then show ?thesis
  proof cases
    case 1
    then show ?thesis by (simp add: dispose_current_None)
  next
    case 2
    from dispose_current_Program [OF 2] obtain ns es where "dispose_current w =
       w \<lparr> calls := calls w @ [DisposeCalled old],
         transportEvents := fold removeAll (loops (programs w ! old)) (transportEvents w),
         nodes := ns, edges := es,
         programs := (programs w)[old := (programs w ! old) \<lparr> loops := [], components := [] \<rparr>],
         currentEngine := None \<rparr>" by blast
    then show ?thesis using 2 assms(2) by (auto simp: nth_list_update)
  qed
qed

lemma initProfileEngine_eq:
  "initProfileEngine e w =
     (audioInitialized w \<or> toneStartOk e,
      w \<lparr> audioInitialized := audioInitialized w \<or> toneStartOk e \<rparr>)"
  by (cases w) (simp add: initProfileEngine_def)

lemma create_new_engine_fields:
  assumes "create_new_engine e v cfg w = (r, w')"
  shows "currentEngine w' = Some (Program (length (programs w)))"
    and "calls w' = calls w @ [Installed (length (programs w))]"
    and "audioInitialized w' = audioInitialized w"
    and "transportPosition w' = transportPosition w"
    and "length (programs w') = Suc (length (programs w))"
    and "q < length (programs w) \<Longrightarrow> programs w' ! q = programs w ! q"
    and "r = Inr (Program (length (programs w))) \<or> r = Inl GraphBuildError"
    and "r = Inr x \<Longrightarrow> transportStarted w'"
proof -
  let ?p = "length (programs w)"
  let ?w2 = "w \<lparr> programs := programs w @
                 [\<lparr> engineClass = v, config = cfg, components = [], loops = [] \<rparr>],
               currentEngine := Some (Program ?p),
               calls := calls w @ [Installed ?p] \<rparr>"
  let ?w3 = "snd (start e ?p ?w2)"
  have g: "grows ?p ?w2 ?w3" by (rule grows_start)
  have unfold: "create_new_engine e v cfg w =
      (case fst (start e ?p ?w2) of
         Some err \<Rightarrow> (Inl err, ?w3)
       | None \<Rightarrow> (Inr (Program ?p), Transport_start ?w3))"
    by (simp add: create_new_engine_def new_program_def split_def split: option.splits)
  have w': "w' = ?w3 \<or> w' = Transport_start ?w3"
    using assms unfold by (auto split: option.splits)
  from g obtain cs ls where progs: "programs ?w3 = (programs ?w2)
           [?p := (programs ?w2 ! ?p) \<lparr> components := components (programs ?w2 ! ?p) @ cs,
                                    loops := loops (programs ?w2 ! ?p) @ ls \<rparr>]"
    unfolding grows_def by blast
  from g have fields: "currentEngine ?w3 = Some (Program ?p)"
      "calls ?w3 = calls w @ [Installed ?p]" "audioInitialized ?w3 = audioInitialized w"
      "transportPosition ?w3 = transportPosition w"
    unfolding grows_def by simp_all
  show "currentEngine w' = Some (Program ?p)"
    using w' fields by (auto simp: Transport_start_def)
  show "calls w' = calls w @ [Installed ?p]"
    using w' fields by (auto simp: Transport_start_def)
  show "audioInitialized w' = audioInitialized w"
    using w' fields by (auto simp: Transport_start_def)
  show "transportPosition w' = transportPosition w"
    using w' fields by (auto simp: Transport_start_def)
  show "length (programs w') = Suc ?p"
    using w' progs by (auto simp: Transport_start_def)
  show "programs w' ! q = programs w ! q" if "q < ?p"
    using w' progs that by (auto simp: Transport_start_def nth_append)
  show "r = Inr (Program ?p) \<or> r = Inl GraphBuildError"
    using assms unfold start_error [of e ?p ?w2] by (auto split: option.splits)
  show "transportStarted w'" if "r = Inr x"
    using assms unfold that by (auto split: option.splits simp: Transport_start_def)
qed

lemma create_new_engine_resolves:
  assumes "chainReverbOk e" and "thunderReverbOk e"
  shows "fst (create_new_engine e v cfg w) = Inr (Program (length (programs w)))"
  using start_resolves [OF assms]
  by (simp add: create_new_engine_def new_program_def split_def split: option.splits)

lemma createEngine_audio_failure:
  assumes nc: "\<forall>c. currentEngine w \<noteq> Some (ConfigObject c)"
    and "\<not> audioInitialized w" and "\<not> toneStartOk e"
  shows "createEngine e prof w = (Inl AudioInitError, dispose_current w)"
proof -
  have "\<not> audioInitialized (dispose_current w)"
    using dispose_current_fields(2) [OF nc] assms(2) by simp
  then have init: "initProfileEngine e (dispose_current w) = (False, dispose_current w)"
    using assms(3) by (simp add: initProfileEngine_def)
  show ?thesis
  proof (cases "currentEngine w")
    case None
    then show ?thesis unfolding createEngine_def by (simp add: init)
  next
    case (Some ref)
    then obtain old where "ref = Program old" using nc by (cases ref) auto
    with Some show ?thesis unfolding createEngine_def by (simp add: init)
  qed
qed

lemma createEngine_audio_ok:
  assumes nc: "\<forall>c. currentEngine w \<noteq> Some (ConfigObject c)"
    and "audioInitialized w \<or> toneStartOk e"
  shows "createEngine e prof w =
      (case get_ENGINE_TYPES (ctype (pconfig prof)) of
         Undefined \<Rightarrow>
           (Inl (UnknownProfileType (ctype (pconfig prof))),
            reset_transport ((dispose_current w) \<lparr> audioInitialized := True \<rparr>))
       | NotAConstructor \<Rightarrow>
           (Inl TypeError, reset_transport ((dispose_current w) \<lparr> audioInitialized := True \<rparr>))
       | ObjectConstructor \<Rightarrow>
           (Inl TypeError,
            (reset_transport ((dispose_current w) \<lparr> audioInitialized := True \<rparr>))
              \<lparr> currentEngine := Some (ConfigObject (pconfig prof)) \<rparr>)
       | Class v \<Rightarrow>
           create_new_engine e v (pconfig prof)
             (reset_transport ((dispose_current w) \<lparr> audioInitialized := True \<rparr>)))"
proof -
  have "audioInitialized (dispose_current w) \<or> toneStartOk e"
    using dispose_current_fields(2) [OF nc] assms(2) by simp
  then have init: "initProfileEngine e (dispose_current w)
                     = (True, (dispose_current w) \<lparr> audioInitialized := True \<rparr>)"
    by (simp add: initProfileEngine_eq)
  show ?thesis
  proof (cases "currentEngine w")
    case None
    then show ?thesis unfolding createEngine_def by (simp add: init Let_def)
  next
    case (Some ref)
    then obtain old where "ref = Program old" using nc by (cases ref) auto
    with Some show ?thesis unfolding createEngine_def by (simp add: init Let_def)
  qed
qed

lemma length_programs_before_lookup:
  assumes "\<forall>c. currentEngine w \<noteq> Some (ConfigObject c)"
  shows "length (programs (reset_transport ((dispose_current w) \<lparr> audioInitialized := True \<rparr>)))
           = length (programs w)"
  using dispose_current_fields(5) [OF assms]
  by (simp add: reset_transport_def Transport_cancel_def Transport_stop_def)

lemma createEngine_resolves:
  assumes "\<forall>c. currentEngine w \<noteq> Some (ConfigObject c)"
    and "audioInitialized w \<or> toneStartOk e"
    and "get_ENGINE_TYPES (ctype (pconfig prof)) = Class v"
    and "chainReverbOk e" and "thunderReverbOk e"
  shows "fst (createEngine e prof w) = Inr (Program (length (programs w)))"
  using createEngine_audio_ok [OF assms(1,2), of prof] assms(3)
    create_new_engine_resolves [OF assms(4,5)] length_programs_before_lookup [OF assms(1)]
  by simp

lemma createEngine_success:
  assumes "createEngine e prof w = (Inr r, w')"
  shows "(\<forall>c. currentEngine w \<noteq> Some (ConfigObject c))
     \<and> (\<exists>v. create_new_engine e v (pconfig prof)
               (reset_transport ((dispose_current w)
                  \<lparr> audioInitialized := audioInitialized (dispose_current w) \<or> toneStartOk e \<rparr>))
            = (Inr r, w'))"
  using assms unfolding createEngine_def
  by (auto simp: initProfileEngine_eq Let_def
      split: option.splits engine_ref.splits if_splits js_property.splits)

lemma createEngine_success_fields:
  assumes "createEngine e prof w = (Inr r, w')"
  shows "currentEngine w' = Some (Program (length (programs w)))"
    and "length (programs w') = Suc (length (programs w))"
    and "calls w' = calls w
           @ (case currentEngine w of Some (Program old) \<Rightarrow> [DisposeCalled old] | _ \<Rightarrow> [])
           @ [Installed (length (programs w))]"
    and "q < length (programs w) \<Longrightarrow> programs w' ! q =
           (if currentEngine w = Some (Program q)
            then (programs w ! q) \<lparr> loops := [], components := [] \<rparr> else programs w ! q)"
proof -
  let ?w3 = "reset_transport ((dispose_current w)
                  \<lparr> audioInitialized := audioInitialized (dispose_current w) \<or> toneStartOk e \<rparr>)"
  from createEngine_success [OF assms] obtain v
    where nc: "\<forall>c. currentEngine w \<noteq> Some (ConfigObject c)"
      and cne: "create_new_engine e v (pconfig prof) ?w3 = (Inr r, w')"
    by blast
  have p3: "programs ?w3 = programs (dispose_current w)"
    and c3: "calls ?w3 = calls (dispose_current w)"
    by (simp_all add: reset_transport_def Transport_cancel_def Transport_stop_def)
  note d = dispose_current_fields [OF nc]
  show "currentEngine w' = Some (Program (length (programs w)))"
    using create_new_engine_fields(1) [OF cne] p3 d(5) by simp
  show "length (programs w') = Suc (length (programs w))"
    using create_new_engine_fields(5) [OF cne] p3 d(5) by simp
  show "calls w' = calls w
           @ (case currentEngine w of Some (Program old) \<Rightarrow> [DisposeCalled old] | _ \<Rightarrow> [])
           @ [Installed (length (programs w))]"
    using create_new_engine_fields(2) [OF cne] p3 c3 d(5,6) by simp
  show "programs w' ! q =
           (if currentEngine w = Some (Program q)
            then (programs w ! q) \<lparr> loops := [], components := [] \<rparr> else programs w ! q)"
    if "q < length (programs w)"
  proof -
    have "programs w' ! q = programs ?w3 ! q"
      using create_new_engine_fields(6) [OF cne, of q] that p3 d(5) by simp
    then show ?thesis
      using dispose_current_programs [OF nc that] p3 by simp
  qed
qed

lemma createEngine_not_unknown:
  assumes "get_ENGINE_TYPES (ctype (pconfig prof)) = Class v"
  shows "fst (createEngine e prof w) \<noteq> Inl (UnknownProfileType t)"
proof (cases "\<exists>c. currentEngine w = Some (ConfigObject c)")
  case True
  then show ?thesis by (auto simp: createEngine_def)
next
  case False
  then have nc: "\<forall>c. currentEngine w \<noteq> Some (ConfigObject c)" by simp
  show ?thesis
  proof (cases "audioInitialized w \<or> toneStartOk e")
    case False
    then show ?thesis using createEngine_audio_failure [OF nc, of e prof] by simp
  next
    case True
    let ?w3 = "reset_transport ((dispose_current w) \<lparr> audioInitialized := True \<rparr>)"
    obtain r w' where cne: "create_new_engine e v (pconfig prof) ?w3 = (r, w')"
      by (cases "create_new_engine e v (pconfig prof) ?w3")
    from create_new_engine_fields(7) [OF cne]
    have "r \<noteq> Inl (UnknownProfileType t)" by auto
    then show ?thesis using createEngine_audio_ok [OF nc True, of prof] assms cne by simp
  qed
qed

lemma createEngine_build_failure_installed:
  assumes "fst (createEngine e prof w) = Inl GraphBuildError"
  shows "currentEngine (snd (createEngine e prof w)) = Some (Program (length (programs w)))"
proof (cases "\<exists>c. currentEngine w = Some (ConfigObject c)")
  case True
  then show ?thesis using assms by (auto simp: createEngine_def)
next
  case False
  then have nc: "\<forall>c. currentEngine w \<noteq> Some (ConfigObject c)" by simp
  show ?thesis
  proof (cases "audioInitialized w \<or> toneStartOk e")
    case False
    then show ?thesis using createEngine_audio_failure [OF nc, of e prof] assms by simp
  next
    case True
    let ?w3 = "reset_transport ((dispose_current w) \<lparr> audioInitialized := True \<rparr>)"
    note unfold = createEngine_audio_ok [OF nc True, of prof]
    show ?thesis
    proof (cases "get_ENGINE_TYPES (ctype (pconfig prof))")
      case (Class v)
      obtain r w' where cne: "create_new_engine e v (pconfig prof) ?w3 = (r, w')"
        by (cases "create_new_engine e v (pconfig prof) ?w3")
      from create_new_engine_fields(1) [OF cne] length_programs_before_lookup [OF nc]
      show ?thesis using unfold Class cne by simp
    qed (use unfold assms in simp_all)
  qed
qed

section \<open>Invariants of the session\<close>





lemma expected_calls_Suc:
  "expected_calls (Suc n) =
     expected_calls n @ (if n = 0 then [] else [DisposeCalled (n - 1)]) @ [Installed n]"
  by (induction n rule: expected_calls.induct) simp_all

lemma count_expected_calls:
  "count_list (expected_calls n) (DisposeCalled q) = (if Suc q < n then 1 else 0)"
  by (induction n rule: expected_calls.induct) auto

lemma createEngine_seq_inv:
  assumes "createEngine_seq cs w = (Inr (), w')"
    and "length (programs w) = n" and "calls w = expected_calls n"
    and "currentEngine w = (if n = 0 then None else Some (Program (n - 1)))"
    and "\<forall>q. Suc q < n \<longrightarrow> components (programs w ! q) = [] \<and> loops (programs w ! q) = []"
  shows "length (programs w') = n + length cs
     \<and> calls w' = expected_calls (n + length cs)
     \<and> currentEngine w' = (if n + length cs = 0 then None else Some (Program (n + length cs - 1)))
     \<and> (\<forall>q. Suc q < n + length cs \<longrightarrow>
            components (programs w' ! q) = [] \<and> loops (programs w' ! q) = [])"
  using assms
proof (induction cs arbitrary: w n)
  case Nil
  then show ?case by simp
next
  case (Cons c cs)
  obtain e prof where c: "c = (e, prof)" by (cases c)
  from Cons.prems(1) obtain r w1 where step: "createEngine e prof w = (Inr r, w1)"
    and rest: "createEngine_seq cs w1 = (Inr (), w')"
    by (auto simp: c split: prod.splits sum.splits)
  note f = createEngine_success_fields [OF step]
  have 1: "length (programs w1) = Suc n" using f(2) Cons.prems(2) by simp
  have 2: "calls w1 = expected_calls (Suc n)"
    using f(3) Cons.prems(2,3,4) by (simp add: expected_calls_Suc)
  have 3: "currentEngine w1 = (if Suc n = 0 then None else Some (Program (Suc n - 1)))"
    using f(1) Cons.prems(2) by simp
  have 4: "\<forall>q. Suc q < Suc n \<longrightarrow>
             components (programs w1 ! q) = [] \<and> loops (programs w1 ! q) = []"
  proof (intro allI impI)
    fix q assume "Suc q < Suc n"
    then have q: "q < length (programs w)" using Cons.prems(2) by simp
    show "components (programs w1 ! q) = [] \<and> loops (programs w1 ! q) = []"
    proof (cases "currentEngine w = Some (Program q)")
      case True
      then show ?thesis using f(4) [OF q] by simp
    next
      case False
      then have "Suc q < n" using Cons.prems(4) q Cons.prems(2) by (auto split: if_splits)
      then show ?thesis using f(4) [OF q] False Cons.prems(5) by simp
    qed
  qed
  from Cons.IH [OF rest 1 2 3 4] show ?case by simp
qed

section \<open>Two concrete runs\<close>

text \<open>
  A first \<open>createEngine\<close> with the Brown Noise profile in a cooperative environment; and a
  call whose type is \<open>'constructor'\<close>: the registry lookup finds \<open>Object\<close>, the call
  rejects with a \<open>TypeError\<close> instead of the unknown-type error, and the config object is
  left in \<open>currentEngine\<close>.
\<close>

lemma get_ENGINE_TYPES_catalog:
  "get_ENGINE_TYPES (ctype (pconfig BROWN_NOISE)) = Class NoiseEngine"
  "get_ENGINE_TYPES (ctype (pconfig LOFI)) = Class LofiEngine"
  by (simp_all add: get_ENGINE_TYPES_def ENGINE_TYPES_def BROWN_NOISE_def LOFI_def no_config_def)

lemma first_run_result:
  "fst (createEngine ok_env BROWN_NOISE initial_world) = Inr (Program 0)"
proof -
  have "fst (createEngine ok_env BROWN_NOISE initial_world)
          = Inr (Program (length (programs initial_world)))"
    by (rule createEngine_resolves [OF _ _ get_ENGINE_TYPES_catalog(1)])
       (simp_all add: initial_world_def ok_env_def)
  then show ?thesis by (simp add: initial_world_def)
qed

lemma first_run:
  "createEngine ok_env BROWN_NOISE initial_world
     = (Inr (Program 0), snd (createEngine ok_env BROWN_NOISE initial_world))"
  using first_run_result by (cases "createEngine ok_env BROWN_NOISE initial_world") simp

lemma first_run_state:
  "currentEngine (snd (createEngine ok_env BROWN_NOISE initial_world)) = Some (Program 0)"
  "length (programs (snd (createEngine ok_env BROWN_NOISE initial_world))) = Suc 0"
  using createEngine_success_fields(1,2) [OF first_run] by (simp_all add: initial_world_def)

lemma createEngine_constructor_type:
  "createEngine ok_env (not_a_real_type \<lparr> pconfig := no_config \<lparr> ctype := ''constructor'' \<rparr> \<rparr>)
     initial_world
   = (Inl TypeError,
      initial_world \<lparr> audioInitialized := True,
        currentEngine := Some (ConfigObject (no_config \<lparr> ctype := ''constructor'' \<rparr>)) \<rparr>)"
  by (simp add: createEngine_def dispose_current_def initProfileEngine_def reset_transport_def
        get_ENGINE_TYPES_def ENGINE_TYPES_def Transport_stop_def Transport_cancel_def
        initial_world_def ok_env_def not_a_real_type_def no_config_def)

section \<open>Awaited and overlapping calls\<close>

text \<open>
  A call that is issued and resumed to its end before anything else happens does exactly
  what the uninterrupted \<open>createEngine\<close> does; so a sequence of calls each awaited before
  the next is \<open>createEngine_seq\<close>.
\<close>

lemma start_pieces:
  assumes "engineClass (programs w ! p) = v" and "config (programs w ! p) = c"
  shows "start e p w =
     (case createMasterChain (chainReverbOk e) (engine_options v c) w of
        (Inl err, w1) \<Rightarrow> (Some err, w1)
      | (Inr ch, w1) \<Rightarrow>
          (case engine_layers v c p ch w1 of
             (Layers_done, w2) \<Rightarrow> (None, w2)
           | (Layers_await_thunder thunderFilter thunderReverb, w2) \<Rightarrow>
               RainEngine_thunder (thunderReverbOk e) p thunderFilter thunderReverb w2))"
  using assms
  by (cases v)
     (simp_all add: start_def GenerativeEngine_start_def BinauralEngine_start_def
        NoiseEngine_start_def RainEngine_start_def ForestEngine_start_def LofiEngine_start_def
        MinimalEngine_start_def ScientificFocusEngine_start_def engine_options_def
        engine_layers_def Let_def split: prod.splits sum.splits)

lemma resume_ended [simp]:
  "resume_task (Rejected err) w = (Rejected err, w)"
  "resume_task (Resolved r) w = (Resolved r, w)"
  by (simp_all add: resume_task_def)

lemma resume_chain_alone:
  assumes "engineClass (programs w ! p) = v" and "config (programs w ! p) = c"
  shows "resume_task
           (fst (resume_task (Await_chain e v c p (fst (createMasterChain_begin (engine_options v c) w)))
                   (snd (createMasterChain_begin (engine_options v c) w))))
           (snd (resume_task (Await_chain e v c p (fst (createMasterChain_begin (engine_options v c) w)))
                   (snd (createMasterChain_begin (engine_options v c) w))))
         = (case start e p w of
              (Some err, w') \<Rightarrow> (Rejected err, w')
            | (None, w') \<Rightarrow> finish_createEngine w')"
proof -
  let ?b = "fst (createMasterChain_begin (engine_options v c) w)"
  let ?w6 = "snd (createMasterChain_begin (engine_options v c) w)"
  obtain r w1 where r: "createMasterChain_resume (chainReverbOk e) (engine_options v c) ?b ?w6 = (r, w1)"
    by (cases "createMasterChain_resume (chainReverbOk e) (engine_options v c) ?b ?w6")
  have cmc: "createMasterChain (chainReverbOk e) (engine_options v c) w = (r, w1)"
    using r by (simp add: createMasterChain_def split_def)
  show ?thesis
  proof (cases r)
    case (Inl err)
    then show ?thesis
      using r cmc by (simp add: start_pieces [OF assms] resume_task_def)
  next
    case (Inr ch)
    obtain lr w2 where l: "engine_layers v c p ch w1 = (lr, w2)"
      by (cases "engine_layers v c p ch w1")
    show ?thesis
    proof (cases lr)
      case Layers_done
      then show ?thesis
        using r cmc Inr l
        by (simp add: start_pieces [OF assms] resume_task_def finish_createEngine_def Let_def)
    next
      case (Layers_await_thunder tf tr)
      obtain x w3 where t: "RainEngine_thunder (thunderReverbOk e) p tf tr w2 = (x, w3)"
        by (cases "RainEngine_thunder (thunderReverbOk e) p tf tr w2")
      then show ?thesis
        using r cmc Inr l Layers_await_thunder
        by (cases x) (simp_all add: start_pieces [OF assms] resume_task_def)
    qed
  qed
qed

lemma run_Resume_last:
  "run (Resume (length ts) # acts) (ts @ [t], w) =
     run acts (ts @ [fst (resume_task t w)], snd (resume_task t w))"
  by (simp add: split_def Let_def)

lemma resume_init_alone:
  "resume_task
     (fst (resume_task (fst (resume_task (Await_init e prof (\<not> audioInitialized w)) w))
             (snd (resume_task (Await_init e prof (\<not> audioInitialized w)) w))))
     (snd (resume_task (fst (resume_task (Await_init e prof (\<not> audioInitialized w)) w))
             (snd (resume_task (Await_init e prof (\<not> audioInitialized w)) w))))
   = (case initProfileEngine e w of (initialized, w2) \<Rightarrow>
        if \<not> initialized then (Rejected AudioInitError, w2)
        else
          (case get_ENGINE_TYPES (ctype (pconfig prof)) of
             Undefined \<Rightarrow> (Rejected (UnknownProfileType (ctype (pconfig prof))), reset_transport w2)
           | NotAConstructor \<Rightarrow> (Rejected TypeError, reset_transport w2)
           | ObjectConstructor \<Rightarrow>
               (Rejected TypeError,
                (reset_transport w2) \<lparr> currentEngine := Some (ConfigObject (pconfig prof)) \<rparr>)
           | Class v \<Rightarrow>
               (ended (fst (create_new_engine e v (pconfig prof) (reset_transport w2))),
                snd (create_new_engine e v (pconfig prof) (reset_transport w2)))))"
proof -
  let ?t0 = "Await_init e prof (\<not> audioInitialized w)"
  have init: "(if \<not> audioInitialized w
               then (if toneStartOk e then (True, w \<lparr> audioInitialized := True \<rparr>) else (False, w))
               else (True, w)) = initProfileEngine e w"
    by (simp add: initProfileEngine_def)
  obtain initialized w2 where i: "initProfileEngine e w = (initialized, w2)"
    by (cases "initProfileEngine e w")
  have first: "resume_task ?t0 w =
      (if \<not> initialized then (Rejected AudioInitError, w2)
       else
         (case get_ENGINE_TYPES (ctype (pconfig prof)) of
            Undefined \<Rightarrow> (Rejected (UnknownProfileType (ctype (pconfig prof))), reset_transport w2)
          | NotAConstructor \<Rightarrow> (Rejected TypeError, reset_transport w2)
          | ObjectConstructor \<Rightarrow>
              (Rejected TypeError,
               (reset_transport w2) \<lparr> currentEngine := Some (ConfigObject (pconfig prof)) \<rparr>)
          | Class v \<Rightarrow>
              (let (p, w4) = new_program v (pconfig prof) (reset_transport w2);
                   w5 = w4 \<lparr> currentEngine := Some (Program p),
                             calls := calls w4 @ [Installed p] \<rparr>;
                   (b, w6) = createMasterChain_begin (engine_options v (pconfig prof)) w5
               in (Await_chain e v (pconfig prof) p b, w6))))"
    unfolding resume_task_def task.case init i by (simp add: Let_def)
  show ?thesis
  proof (cases initialized)
    case False
    then show ?thesis unfolding first i by simp
  next
    case True
    show ?thesis
    proof (cases "get_ENGINE_TYPES (ctype (pconfig prof))")
      case (Class v)
      let ?w3 = "reset_transport w2"
      let ?p = "length (programs ?w3)"
      let ?w5 = "?w3 \<lparr> programs := programs ?w3 @
                    [\<lparr> engineClass = v, config = pconfig prof, components = [], loops = [] \<rparr>],
                  currentEngine := Some (Program ?p),
                  calls := calls ?w3 @ [Installed ?p] \<rparr>"
      have pc: "engineClass (programs ?w5 ! ?p) = v" "config (programs ?w5 ! ?p) = pconfig prof"
        by simp_all
      have f: "resume_task ?t0 w =
          (Await_chain e v (pconfig prof) ?p
             (fst (createMasterChain_begin (engine_options v (pconfig prof)) ?w5)),
           snd (createMasterChain_begin (engine_options v (pconfig prof)) ?w5))"
        unfolding first using True Class by (simp add: new_program_def split_def Let_def)
      have cur: "currentEngine (snd (start e ?p ?w5)) = Some (Program ?p)"
        using grows_start [of ?p ?w5 e] unfolding grows_def by simp
      have cne: "create_new_engine e v (pconfig prof) ?w3 =
          (case start e ?p ?w5 of
             (Some err, w') \<Rightarrow> (Inl err, w')
           | (None, w') \<Rightarrow> (Inr (Program ?p), Transport_start w'))"
        by (simp add: create_new_engine_def new_program_def)
      have "resume_task (fst (resume_task (fst (resume_task ?t0 w)) (snd (resume_task ?t0 w))))
              (snd (resume_task (fst (resume_task ?t0 w)) (snd (resume_task ?t0 w))))
            = (case start e ?p ?w5 of
                 (Some err, w') \<Rightarrow> (Rejected err, w')
               | (None, w') \<Rightarrow> finish_createEngine w')"
        unfolding f fst_conv snd_conv resume_chain_alone [OF pc]
        by (cases "start e ?p ?w5") (auto split: option.splits)
      also have "\<dots> = (ended (fst (create_new_engine e v (pconfig prof) ?w3)),
                         snd (create_new_engine e v (pconfig prof) ?w3))"
        unfolding cne using cur
        by (cases "start e ?p ?w5")
           (auto simp: ended_def finish_createEngine_def Transport_start_def split: option.splits)
      finally show ?thesis using True Class by (simp add: i)
    qed (use True in \<open>simp_all add: first i\<close>)
  qed
qed

lemma call_and_await_createEngine:
  "call_and_await e prof (ts, w) =
     (ts @ [ended (fst (createEngine e prof w))], snd (createEngine e prof w))"
proof (cases "\<exists>c. currentEngine w = Some (ConfigObject c)")
  case True
  then show ?thesis
    by (auto simp: call_and_await_def createEngine_call_def createEngine_def ended_def
          run_Resume_last)
next
  case False
  then have call: "createEngine_call e prof w =
      (Await_init e prof (\<not> audioInitialized (dispose_current w)), dispose_current w)"
    by (auto simp: createEngine_call_def Let_def split: option.splits engine_ref.splits)
  have atomic: "createEngine e prof w =
      (case initProfileEngine e (dispose_current w) of (initialized, w2) \<Rightarrow>
        if \<not> initialized then (Inl AudioInitError, w2)
        else
          (case get_ENGINE_TYPES (ctype (pconfig prof)) of
             Undefined \<Rightarrow> (Inl (UnknownProfileType (ctype (pconfig prof))), reset_transport w2)
           | NotAConstructor \<Rightarrow> (Inl TypeError, reset_transport w2)
           | ObjectConstructor \<Rightarrow>
               (Inl TypeError,
                (reset_transport w2) \<lparr> currentEngine := Some (ConfigObject (pconfig prof)) \<rparr>)
           | Class v \<Rightarrow> create_new_engine e v (pconfig prof) (reset_transport w2)))"
    using False
    by (auto simp: createEngine_def Let_def split_def split: option.splits engine_ref.splits)
  have "call_and_await e prof (ts, w) =
      (ts @ [fst (resume_task
     (fst (resume_task (fst (resume_task (Await_init e prof (\<not> audioInitialized (dispose_current w))) (dispose_current w)))
             (snd (resume_task (Await_init e prof (\<not> audioInitialized (dispose_current w))) (dispose_current w)))))
     (snd (resume_task (fst (resume_task (Await_init e prof (\<not> audioInitialized (dispose_current w))) (dispose_current w)))
             (snd (resume_task (Await_init e prof (\<not> audioInitialized (dispose_current w))) (dispose_current w))))))],
       snd (resume_task
     (fst (resume_task (fst (resume_task (Await_init e prof (\<not> audioInitialized (dispose_current w))) (dispose_current w)))
             (snd (resume_task (Await_init e prof (\<not> audioInitialized (dispose_current w))) (dispose_current w)))))
     (snd (resume_task (fst (resume_task (Await_init e prof (\<not> audioInitialized (dispose_current w))) (dispose_current w)))
             (snd (resume_task (Await_init e prof (\<not> audioInitialized (dispose_current w))) (dispose_current w)))))))"
    by (simp add: call_and_await_def call run_Resume_last del: run.simps(3))
  then show ?thesis
    unfolding resume_init_alone atomic
    by (auto simp: ended_def split: prod.splits js_property.splits)
qed

lemma awaited_calls_createEngine_seq:
  "createEngine_seq cs w = (Inr (), w') \<Longrightarrow>
     snd (fold (\<lambda>(e, prof). call_and_await e prof) cs (ts, w)) = w'"
proof (induction cs arbitrary: ts w)
  case Nil
  then show ?case by simp
next
  case (Cons c cs)
  obtain e prof where c: "c = (e, prof)" by (cases c)
  from Cons.prems obtain r w1 where step: "createEngine e prof w = (Inr r, w1)"
    and rest: "createEngine_seq cs w1 = (Inr (), w')"
    by (auto simp: c split: prod.splits sum.splits)
  have "call_and_await e prof (ts, w) = (ts @ [ended (Inr r)], w1)"
    using call_and_await_createEngine [of e prof ts w] step by simp
  then show ?case using Cons.IH [OF rest] by (simp add: c)
qed

text \<open>
  When each call is awaited before the next, the accounting is as the specification
  asks: the engine of the last call is installed, every earlier engine was disposed
  exactly once, just before its successor was installed, and has empty lists.
\<close>

lemma createEngine_seq_awaited_one_active:
  assumes "createEngine_seq cs initial_world = (Inr (), w)" and "cs \<noteq> []"
  shows "getCurrentEngine w = Some (Program (length cs - 1))
     \<and> length (programs w) = length cs
     \<and> calls w = expected_calls (length cs)
     \<and> (\<forall>q. Suc q < length cs \<longrightarrow>
            count_list (calls w) (DisposeCalled q) = 1
            \<and> components (programs w ! q) = [] \<and> loops (programs w ! q) = [])
     \<and> count_list (calls w) (DisposeCalled (length cs - 1)) = 0"
proof -
  have "length (programs w) = 0 + length cs
     \<and> calls w = expected_calls (0 + length cs)
     \<and> currentEngine w = (if 0 + length cs = 0 then None else Some (Program (0 + length cs - 1)))
     \<and> (\<forall>q. Suc q < 0 + length cs \<longrightarrow>
            components (programs w ! q) = [] \<and> loops (programs w ! q) = [])"
    by (rule createEngine_seq_inv [OF assms(1)]) (simp_all add: initial_world_def)
  then show ?thesis
    using assms(2) by (simp add: getCurrentEngine_def count_expected_calls)
qed

lemma createEngine_seq_awaited_example:
  "\<exists>w. createEngine_seq [(ok_env, BROWN_NOISE), (ok_env, LOFI)] initial_world = (Inr (), w)
     \<and> [(ok_env, BROWN_NOISE), (ok_env, LOFI)] \<noteq> []
     \<and> getCurrentEngine w = Some (Program 1)
     \<and> calls w = [Installed 0, DisposeCalled 0, Installed 1]
     \<and> count_list (calls w) (DisposeCalled 0) = 1
     \<and> components (programs w ! 0) = [] \<and> loops (programs w ! 0) = []"
proof -
  let ?w1 = "snd (createEngine ok_env BROWN_NOISE initial_world)"
  let ?w2 = "snd (createEngine ok_env LOFI ?w1)"
  have nc: "\<forall>c. currentEngine ?w1 \<noteq> Some (ConfigObject c)"
    by (simp add: first_run_state)
  have env: "audioInitialized ?w1 \<or> toneStartOk ok_env" "chainReverbOk ok_env"
      "thunderReverbOk ok_env"
    by (simp_all add: ok_env_def)
  have "fst (createEngine ok_env LOFI ?w1) = Inr (Program (length (programs ?w1)))"
    by (rule createEngine_resolves [OF nc env(1) get_ENGINE_TYPES_catalog(2) env(2,3)])
  then have second: "fst (createEngine ok_env LOFI ?w1) = Inr (Program 1)"
    by (simp add: first_run_state)
  have run: "createEngine_seq [(ok_env, BROWN_NOISE), (ok_env, LOFI)] initial_world = (Inr (), ?w2)"
    by (simp add: split_def first_run_result second)
  have ne: "[(ok_env, BROWN_NOISE), (ok_env, LOFI)] \<noteq> []" by simp
  from createEngine_seq_awaited_one_active [OF run ne] have
    "getCurrentEngine ?w2 = Some (Program 1)
     \<and> calls ?w2 = [Installed 0, DisposeCalled 0, Installed 1]
     \<and> count_list (calls ?w2) (DisposeCalled 0) = 1
     \<and> components (programs ?w2 ! 0) = [] \<and> loops (programs ?w2 ! 0) = []"
    by (simp add: numeral_2_eq_2)
  with run show ?thesis by blast
qed

text \<open>Two calls that overlap, evaluated.\<close>

lemmas overlap_defs =
  createEngine_call_def resume_task_def dispose_current_def initial_world_def ok_env_def
  reset_transport_def Transport_start_def Transport_stop_def Transport_cancel_def
  get_ENGINE_TYPES_def ENGINE_TYPES_def BROWN_NOISE_def LOFI_def no_config_def new_program_def
  createMasterChain_begin_def createMasterChain_resume_def add_stage_def new_node_def
  connect_def truthy_num_def engine_options_def engine_layers_def NoiseEngine_options_def
  NoiseEngine_layers_def LofiEngine_options_def LofiEngine_layers_def no_options_def layer_def
  loop_layer_def start_loop_def push_components_def push_loops_def finish_createEngine_def
  Let_def

lemma overlapping_run:
  "fst (run [Call ok_env BROWN_NOISE, Call ok_env LOFI, Resume 0, Resume 1, Resume 0, Resume 1]
          ([], initial_world))
     = [Resolved (Some (Program 1)), Resolved (Some (Program 1))]"
  "currentEngine (snd (run [Call ok_env BROWN_NOISE, Call ok_env LOFI, Resume 0, Resume 1,
                            Resume 0, Resume 1] ([], initial_world))) = Some (Program 1)"
  "calls (snd (run [Call ok_env BROWN_NOISE, Call ok_env LOFI, Resume 0, Resume 1,
                    Resume 0, Resume 1] ([], initial_world))) = [Installed 0, Installed 1]"
  "length (components (programs (snd (run [Call ok_env BROWN_NOISE, Call ok_env LOFI, Resume 0,
                    Resume 1, Resume 0, Resume 1] ([], initial_world))) ! 0)) = 11"
  by (simp_all add: overlap_defs)

text \<open>In any state at all with no engine installed, a call still pending or not, the two
  teardown functions return normally and touch nothing but the Transport.\<close>

lemma teardown_without_engine:
  assumes "getCurrentEngine w = None"
  shows "stopEngine w = Inr (Transport_stop w)"
    and "disposeEngine w = Inr (Transport_cancel (Transport_stop w))"
  using assms by (simp_all add: getCurrentEngine_def stopEngine_def disposeEngine_def)

section \<open>stop() and dispose()\<close>

text \<open>
  C5: \<open>stop()\<close> removes no entry from any engine's \<open>components\<close> or \<open>loops\<close> list (the
  engines are exactly the same before and after) and calls \<open>dispose()\<close> on no node; and
  \<open>start()\<close>, whether it resolves or rejects, only appends to the two lists of its engine.
  Of the three methods of an engine, then, only \<open>dispose()\<close> can empty the lists.
\<close>

theorem stop_keeps_lists:
  "programs (stop p w) = programs w
   \<and> map disposeCalls (nodes (stop p w)) = map disposeCalls (nodes w)
   \<and> (p < length (programs w) \<longrightarrow>
        (\<exists>cs ls. components (programs (snd (start e p w)) ! p) = components (programs w ! p) @ cs
                \<and> loops (programs (snd (start e p w)) ! p) = loops (programs w ! p) @ ls))"
proof (intro conjI impI)
  obtain ns where s: "stop p w =
      w \<lparr> transportEvents := fold removeAll (loops (programs w ! p)) (transportEvents w),
          nodes := ns \<rparr>" and ns: "map disposeCalls ns = map disposeCalls (nodes w)"
    using stop_shape by blast
  show "programs (stop p w) = programs w" by (simp add: s)
  show "map disposeCalls (nodes (stop p w)) = map disposeCalls (nodes w)" by (simp add: s ns)
next
  assume p: "p < length (programs w)"
  have "grows p w (snd (start e p w))" by (rule grows_start)
  then obtain cs ls where "programs (snd (start e p w)) = (programs w)
           [p := (programs w ! p) \<lparr> components := components (programs w ! p) @ cs,
                                    loops := loops (programs w ! p) @ ls \<rparr>]"
    unfolding grows_def by blast
  then have "components (programs (snd (start e p w)) ! p) = components (programs w ! p) @ cs
                \<and> loops (programs (snd (start e p w)) ! p) = loops (programs w ! p) @ ls"
    using p by simp
  then show "\<exists>cs ls. components (programs (snd (start e p w)) ! p) = components (programs w ! p) @ cs
                \<and> loops (programs (snd (start e p w)) ! p) = loops (programs w ! p) @ ls"
    by blast
qed

theorem stop_keeps_lists_witness:
  "0 < length (programs (snd (createEngine ok_env BROWN_NOISE initial_world)))
   \<and> programs (stop 0 (snd (createEngine ok_env BROWN_NOISE initial_world)))
       = programs (snd (createEngine ok_env BROWN_NOISE initial_world))
   \<and> (\<exists>cs ls.
        components (programs (snd (start ok_env 0
            (snd (createEngine ok_env BROWN_NOISE initial_world)))) ! 0)
          = components (programs (snd (createEngine ok_env BROWN_NOISE initial_world)) ! 0) @ cs
        \<and> loops (programs (snd (start ok_env 0
            (snd (createEngine ok_env BROWN_NOISE initial_world)))) ! 0)
          = loops (programs (snd (createEngine ok_env BROWN_NOISE initial_world)) ! 0) @ ls)"
  using stop_keeps_lists [of 0 "snd (createEngine ok_env BROWN_NOISE initial_world)" ok_env]
  by (simp add: first_run_state)

text \<open>
  C6: when \<open>disposeEngine()\<close> is called while an engine is installed, it returns normally;
  afterwards that engine's \<open>components\<close> and \<open>loops\<close> lists are empty, the Transport has
  no scheduled loop left, and no engine is installed.
\<close>

theorem disposeEngine_complete:
  assumes "getCurrentEngine w = Some (Program p)" and "p < length (programs w)"
  shows "\<exists>w'. disposeEngine w = Inr w'
     \<and> components (programs w' ! p) = [] \<and> loops (programs w' ! p) = []
     \<and> transportEvents w' = [] \<and> getCurrentEngine w' = None"
proof -
  obtain ns es where d: "dispose p w =
     w \<lparr> calls := calls w @ [DisposeCalled p],
         transportEvents := fold removeAll (loops (programs w ! p)) (transportEvents w),
         nodes := ns, edges := es,
         programs := (programs w)[p := (programs w ! p) \<lparr> loops := [], components := [] \<rparr>] \<rparr>"
    using dispose_shape by blast
  show ?thesis
    using assms
    by (simp add: disposeEngine_def getCurrentEngine_def d Transport_stop_def Transport_cancel_def)
qed

theorem disposeEngine_complete_witness:
  "getCurrentEngine (snd (createEngine ok_env BROWN_NOISE initial_world)) = Some (Program 0)
   \<and> 0 < length (programs (snd (createEngine ok_env BROWN_NOISE initial_world)))
   \<and> (\<exists>w'. disposeEngine (snd (createEngine ok_env BROWN_NOISE initial_world)) = Inr w'
         \<and> components (programs w' ! 0) = [] \<and> loops (programs w' ! 0) = []
         \<and> transportEvents w' = [] \<and> getCurrentEngine w' = None)"
proof -
  have a: "getCurrentEngine (snd (createEngine ok_env BROWN_NOISE initial_world)) = Some (Program 0)"
    by (simp add: getCurrentEngine_def first_run_state)
  have b: "0 < length (programs (snd (createEngine ok_env BROWN_NOISE initial_world)))"
    by (simp add: first_run_state)
  from disposeEngine_complete [OF a b] a b show ?thesis by blast
qed



section \<open>createEngine\<close>

text \<open>
  C4 does not hold of the code when calls overlap. \<open>createEngine(BROWN_NOISE)\<close> and then
  \<open>createEngine(LOFI)\<close> are called without awaiting the first, in a cooperative
  environment, and their tasks are resumed in the order in which their awaits resolve.
  Both calls run \<open>if (currentEngine)\<close> before either has installed its engine, so the
  second call installs engine 1 over engine 0 without \<open>dispose()\<close>: both promises
  resolve (with engine 1, the value of \<open>currentEngine\<close> at their return), the calls
  recorded are the two installations only, and engine 0 keeps its 11 components.
\<close>

theorem overlapping_createEngine_skips_dispose:
  "fst (run [Call ok_env BROWN_NOISE, Call ok_env LOFI, Resume 0, Resume 1, Resume 0, Resume 1]
          ([], initial_world))
     = [Resolved (Some (Program 1)), Resolved (Some (Program 1))]
   \<and> getCurrentEngine (snd (run [Call ok_env BROWN_NOISE, Call ok_env LOFI, Resume 0, Resume 1,
                                 Resume 0, Resume 1] ([], initial_world))) = Some (Program 1)
   \<and> calls (snd (run [Call ok_env BROWN_NOISE, Call ok_env LOFI, Resume 0, Resume 1,
                       Resume 0, Resume 1] ([], initial_world))) = [Installed 0, Installed 1]
   \<and> count_list (calls (snd (run [Call ok_env BROWN_NOISE, Call ok_env LOFI, Resume 0, Resume 1,
                       Resume 0, Resume 1] ([], initial_world)))) (DisposeCalled 0) = 0
   \<and> length (components (programs (snd (run [Call ok_env BROWN_NOISE, Call ok_env LOFI,
                       Resume 0, Resume 1, Resume 0, Resume 1] ([], initial_world))) ! 0)) = 11"
  unfolding getCurrentEngine_def overlapping_run by simp

text \<open>
  C1 does not hold of the code when the failure is inside \<open>start()\<close>. With the Brown Noise
  profile, audio initialisation succeeding and the reverb's impulse generation rejecting,
  \<open>createEngine\<close> rejects and \<open>getCurrentEngine()\<close> returns the engine whose \<open>start()\<close>
  failed: it was assigned to \<open>currentEngine\<close> before \<open>start()\<close> was awaited.
\<close>

theorem createEngine_failed_start_stays_installed:
  "fst (createEngine \<lparr> toneStartOk = True, chainReverbOk = False, thunderReverbOk = True \<rparr>
          BROWN_NOISE initial_world) = Inl GraphBuildError
   \<and> getCurrentEngine
        (snd (createEngine \<lparr> toneStartOk = True, chainReverbOk = False, thunderReverbOk = True \<rparr>
                BROWN_NOISE initial_world)) = Some (Program 0)"
proof -
  have "fst (createEngine \<lparr> toneStartOk = True, chainReverbOk = False, thunderReverbOk = True \<rparr>
          BROWN_NOISE initial_world) = Inl GraphBuildError"
    by (simp add: createEngine_def dispose_current_def initProfileEngine_def
          reset_transport_def create_new_engine_def get_ENGINE_TYPES_def ENGINE_TYPES_def
          new_program_def start_def Transport_stop_def Transport_cancel_def initial_world_def
          NoiseEngine_start_unfold createMasterChain_unfold add_stage_def new_node_def connect_def
          truthy_num_def no_options_def no_config_def BROWN_NOISE_def Let_def)
  then show ?thesis
    using createEngine_build_failure_installed
    by (simp add: getCurrentEngine_def initial_world_def)
qed

text \<open>
  C7, as stated, fails: audio initialisation comes before the registry lookup, so with an
  unregistered type and \<open>Tone.start()\<close> rejecting, \<open>createEngine\<close> rejects with the audio
  initialisation error, not with the unknown-type error.
\<close>

theorem createEngine_unknown_type_audio_failure:
  "fst (createEngine \<lparr> toneStartOk = False, chainReverbOk = True, thunderReverbOk = True \<rparr>
          not_a_real_type initial_world) = Inl AudioInitError
   \<and> map_of ENGINE_TYPES (ctype (pconfig not_a_real_type)) = None"
  by (simp add: createEngine_def dispose_current_def initProfileEngine_def initial_world_def
        not_a_real_type_def no_config_def ENGINE_TYPES_def)

text \<open>
  C7, amended: take a profile whose \<open>config.type\<close> is not one of the 8 registered tags and
  is not the name of a property inherited from \<open>Object.prototype\<close>, and a call of
  \<open>createEngine(profile)\<close> that no other call overlaps, made when the active slot is empty
  or holds an engine (not the config object that a call with type \<open>'constructor'\<close> leaves
  there). If audio is already initialised or \<open>Tone.start()\<close> resolves, the call rejects
  with the unknown-type error; otherwise it rejects with the audio initialisation error.
  In both cases no engine is installed afterwards: the prior engine, if any, has been
  disposed (its lists are empty), and nothing else was called.
\<close>

theorem createEngine_unknown_type:
  assumes "map_of ENGINE_TYPES (ctype (pconfig prof)) = None"
    and "ctype (pconfig prof) \<notin> set (''constructor'' # Object_prototype_members)"
    and "\<forall>c. getCurrentEngine w \<noteq> Some (ConfigObject c)"
  shows "fst (createEngine e prof w)
           = Inl (if audioInitialized w \<or> toneStartOk e
                  then UnknownProfileType (ctype (pconfig prof)) else AudioInitError)
     \<and> getCurrentEngine (snd (createEngine e prof w)) = None
     \<and> calls (snd (createEngine e prof w))
         = calls w @ (case getCurrentEngine w of
                        Some (Program old) \<Rightarrow> [DisposeCalled old] | _ \<Rightarrow> [])
     \<and> (\<forall>old. getCurrentEngine w = Some (Program old) \<and> old < length (programs w) \<longrightarrow>
           components (programs (snd (createEngine e prof w)) ! old) = []
           \<and> loops (programs (snd (createEngine e prof w)) ! old) = [])"
proof -
  have nc: "\<forall>c. currentEngine w \<noteq> Some (ConfigObject c)"
    using assms(3) by (simp add: getCurrentEngine_def)
  have u: "get_ENGINE_TYPES (ctype (pconfig prof)) = Undefined"
    using assms(1,2) by (simp add: get_ENGINE_TYPES_def)
  note d = dispose_current_fields [OF nc]
  show ?thesis
  proof (cases "audioInitialized w \<or> toneStartOk e")
    case True
    let ?w3 = "reset_transport ((dispose_current w) \<lparr> audioInitialized := True \<rparr>)"
    have run: "createEngine e prof w = (Inl (UnknownProfileType (ctype (pconfig prof))), ?w3)"
      using createEngine_audio_ok [OF nc True, of prof] u by simp
    have "currentEngine ?w3 = None" "calls ?w3 = calls (dispose_current w)"
        "programs ?w3 = programs (dispose_current w)"
      using d(1) by (simp_all add: reset_transport_def Transport_cancel_def Transport_stop_def)
    then show ?thesis
      using True run d(6) dispose_current_programs [OF nc]
      by (simp add: getCurrentEngine_def)
  next
    case False
    then have run: "createEngine e prof w = (Inl AudioInitError, dispose_current w)"
      using createEngine_audio_failure [OF nc, of e prof] by simp
    show ?thesis
      using False run d(1,6) dispose_current_programs [OF nc]
      by (simp add: getCurrentEngine_def)
  qed
qed

theorem createEngine_unknown_type_witness:
  "fst (createEngine ok_env not_a_real_type (snd (createEngine ok_env BROWN_NOISE initial_world)))
     = Inl (UnknownProfileType ''not_a_real_type'')
   \<and> getCurrentEngine (snd (createEngine ok_env not_a_real_type
        (snd (createEngine ok_env BROWN_NOISE initial_world)))) = None
   \<and> calls (snd (createEngine ok_env not_a_real_type
        (snd (createEngine ok_env BROWN_NOISE initial_world)))) = [Installed 0, DisposeCalled 0]
   \<and> fst (createEngine \<lparr> toneStartOk = False, chainReverbOk = True, thunderReverbOk = True \<rparr>
            not_a_real_type initial_world) = Inl AudioInitError
   \<and> getCurrentEngine
        (snd (createEngine \<lparr> toneStartOk = False, chainReverbOk = True, thunderReverbOk = True \<rparr>
                not_a_real_type initial_world)) = None"
proof -
  let ?w1 = "snd (createEngine ok_env BROWN_NOISE initial_world)"
  let ?bad = "\<lparr> toneStartOk = False, chainReverbOk = True, thunderReverbOk = True \<rparr>"
  have 1: "map_of ENGINE_TYPES (ctype (pconfig not_a_real_type)) = None"
    by (simp add: ENGINE_TYPES_def not_a_real_type_def no_config_def)
  have 2: "ctype (pconfig not_a_real_type) \<notin> set (''constructor'' # Object_prototype_members)"
    by (simp add: Object_prototype_members_def not_a_real_type_def no_config_def)
  have 3: "\<forall>c. getCurrentEngine ?w1 \<noteq> Some (ConfigObject c)"
    by (simp add: getCurrentEngine_def first_run_state)
  have 4: "\<forall>c. getCurrentEngine initial_world \<noteq> Some (ConfigObject c)"
    by (simp add: getCurrentEngine_def initial_world_def)
  have c1: "calls ?w1 = [Installed 0]"
    using createEngine_success_fields(3) [OF first_run] by (simp add: initial_world_def)
  have ok: "toneStartOk ok_env" by (simp add: ok_env_def)
  have a: "fst (createEngine ok_env not_a_real_type ?w1) = Inl (UnknownProfileType ''not_a_real_type'')
     \<and> getCurrentEngine (snd (createEngine ok_env not_a_real_type ?w1)) = None
     \<and> calls (snd (createEngine ok_env not_a_real_type ?w1)) = [Installed 0, DisposeCalled 0]"
    using createEngine_unknown_type [OF 1 2 3, of ok_env] c1 ok
    by (simp add: getCurrentEngine_def first_run_state not_a_real_type_def no_config_def)
  have b: "fst (createEngine ?bad not_a_real_type initial_world) = Inl AudioInitError
     \<and> getCurrentEngine (snd (createEngine ?bad not_a_real_type initial_world)) = None"
    using createEngine_unknown_type [OF 1 2 4, of ?bad]
    by (simp add: initial_world_def)
  from a b show ?thesis by blast
qed

text \<open>
  C10: the catalog has 10 profiles, the type of each is a key of \<open>ENGINE_TYPES\<close>, and
  \<open>createEngine\<close> applied to a catalog profile never rejects with the unknown-type error,
  in any state and any environment.
\<close>

theorem catalog_types_registered:
  assumes "prof \<in> set SOUND_PROFILES"
  shows "length SOUND_PROFILES = 10
     \<and> ctype (pconfig prof) \<in> fst ` set ENGINE_TYPES
     \<and> fst (createEngine e prof w) \<noteq> Inl (UnknownProfileType t)"
proof -
  have "\<exists>v. map_of ENGINE_TYPES (ctype (pconfig prof)) = Some v"
    using assms
    by (auto simp: SOUND_PROFILES_def ENGINE_TYPES_def no_config_def SCIENCE_FOCUS_def
          DEEP_FOCUS_def BINAURAL_ALPHA_def BINAURAL_BETA_def BROWN_NOISE_def WHITE_NOISE_def
          RAIN_def LOFI_def MINIMAL_def FOREST_def)
  then obtain v where v: "map_of ENGINE_TYPES (ctype (pconfig prof)) = Some v" by blast
  then have "get_ENGINE_TYPES (ctype (pconfig prof)) = Class v"
    by (simp add: get_ENGINE_TYPES_def)
  then have "fst (createEngine e prof w) \<noteq> Inl (UnknownProfileType t)"
    by (rule createEngine_not_unknown)
  moreover have "ctype (pconfig prof) \<in> fst ` set ENGINE_TYPES"
    using v by (meson domI dom_map_of_conv_image_fst [THEN equalityD1, THEN subsetD] map_of_SomeD image_eqI fst_conv)
  ultimately show ?thesis by (simp add: SOUND_PROFILES_def)
qed

theorem catalog_types_registered_witness:
  "SCIENCE_FOCUS \<in> set SOUND_PROFILES
   \<and> ctype (pconfig SCIENCE_FOCUS) \<in> fst ` set ENGINE_TYPES
   \<and> fst (createEngine ok_env SCIENCE_FOCUS initial_world) \<noteq> Inl (UnknownProfileType ''scientific'')"
proof -
  have m: "SCIENCE_FOCUS \<in> set SOUND_PROFILES" by (simp add: SOUND_PROFILES_def)
  from catalog_types_registered [OF m, of ok_env initial_world "''scientific''"] m
  show ?thesis by simp
qed

end
